theory Spec2Isabelle
  imports Complex_Main
begin

section \<open>JavaScript values used by the engine\<close>

text \<open>
  Money, positions and counters are JavaScript numbers that only ever hold integers; they
  are modelled as \<open>int\<close>. An optional field (\<open>cost?: number\<close>) is an \<open>option\<close>,
  \<open>null\<close> and \<open>undefined\<close> both being \<open>None\<close>. Reading a field of \<open>undefined\<close>
  throws a \<open>TypeError\<close>, which ends the whole run (nothing in the engine catches it): it
  is the error value \<open>TypeError\<close> and the state at the throw is not kept. Console output
  and the event log (\<open>multiAgent.log\<close>, \<open>logWithAfter\<close>, \<open>snapshotState\<close>), which never
  write to the game state, are left out.
\<close>

datatype exn = TypeError | OutOfFuel

text \<open>\<open>xs[i]\<close>: \<open>undefined\<close> outside the array.\<close>

definition lookup :: "'a list \<Rightarrow> int \<Rightarrow> 'a option" where
  "lookup xs i = (if 0 \<le> i \<and> i < int (length xs) then Some (xs ! nat i) else None)"

text \<open>\<open>a % b\<close> on integers, \<open>b \<noteq> 0\<close>: the sign of the result is the sign of \<open>a\<close>.\<close>

definition js_rem :: "int \<Rightarrow> int \<Rightarrow> int" where
  "js_rem a b = sgn a * (\<bar>a\<bar> mod \<bar>b\<bar>)"

text \<open>
  \<open>xs.find(P)\<close> returns the first element satisfying \<open>P\<close>. The engine goes on to mutate
  the object found, so the model returns its index.
\<close>

primrec findIndex :: "('a \<Rightarrow> bool) \<Rightarrow> 'a list \<Rightarrow> nat option" where
  "findIndex P [] = None"
| "findIndex P (x # xs) = (if P x then Some 0 else map_option Suc (findIndex P xs))"

text \<open>\<open>Math.min(...xs)\<close> and \<open>Math.max(...xs)\<close> of a non-empty array.\<close>

definition minOf :: "int \<Rightarrow> int list \<Rightarrow> int" where
  "minOf h hs = fold min hs h"

definition maxOf :: "int \<Rightarrow> int list \<Rightarrow> int" where
  "maxOf h hs = fold max hs h"

text \<open>\<open>x || 0\<close> and \<open>x ?? 0\<close> on an optional number; a number is truthy when it is not 0.\<close>

definition orZero :: "int option \<Rightarrow> int" where
  "orZero x = (case x of None \<Rightarrow> 0 | Some v \<Rightarrow> v)"

definition truthyNum :: "int option \<Rightarrow> bool" where
  "truthyNum x = (case x of None \<Rightarrow> False | Some v \<Rightarrow> v \<noteq> 0)"

definition truthyStr :: "string option \<Rightarrow> bool" where
  "truthyStr x = (case x of None \<Rightarrow> False | Some v \<Rightarrow> v \<noteq> [])"

section \<open>Data model (agents.ts, cards.ts; the tile type is used as game.ts reads it)\<close>

record attributes =
  color :: "string option"
  cost :: "int option"
  rent_amount :: "int option"
  houseCost :: "int option"
  rent1House :: "int option"
  rent2Houses :: "int option"
  rent3Houses :: "int option"
  rent4Houses :: "int option"
  rentHotel :: "int option"

record tile =
  location :: int
  tileType :: string
  attributes :: attributes

record Property =
  tile :: tile
  owner :: "string option"
  houses :: int
  hotels :: int
  mortgaged :: bool

text \<open>\<open>Player.id\<close> is \<open>pid\<close>; \<open>Player.properties\<close> is \<open>propertyLocs\<close>.\<close>

record Player =
  pid :: string
  name :: string
  position :: int
  money :: int
  propertyLocs :: "int list"
  jailFreeCards :: int
  inJail :: bool
  jailTurns :: int
  bankrupt :: bool

record cardAttributes =
  amount :: "int option"
  cardLocation :: "int option"
  jailFreeCard :: bool
  collectFromPlayers :: bool
  payToPlayers :: bool
  perPlayer :: "int option"
  moveSpaces :: "int option"
  moveToNearest :: "string option"
  rentMultiplier :: "int option"
  diceMultiplier :: "int option"
  perHouse :: "int option"
  perHotel :: "int option"
  collectOnPassGo :: bool

record Card =
  cardId :: int
  cardType :: string
  cardAttrs :: "cardAttributes option"

record Roll =
  die1 :: int
  die2 :: int
  total :: int
  doubles :: bool

text \<open>
  \<open>GameState\<close>; the bank's inventory \<open>houses\<close>, \<open>hotels\<close> is \<open>housesBank\<close>,
  \<open>hotelsBank\<close>.
\<close>

record GameState =
  players :: "Player list"
  currentPlayerIndex :: int
  properties :: "Property list"
  chanceCards :: "Card list"
  communityChestCards :: "Card list"
  housesBank :: int
  hotelsBank :: int
  turn :: int
  gameOver :: bool
  winner :: "string option"

text \<open>The roll tracking of \<open>MonopolyAgent\<close> (its \<open>doublesCount\<close> is \<open>doublesCountA\<close>).\<close>

record Agent =
  hasRolledThisTurn :: bool
  doublesCountA :: int
  turnInteractionCount :: int

text \<open>
  \<open>MonopolyBenchmark\<close>: the game state of \<open>multiAgent.gameState\<close>, extended by the agents
  and the engine's own fields. \<open>Math.random\<close> is a fixed sequence \<open>rng\<close> of dice pairs given
  to the functions that roll; \<open>diceUsed\<close> counts the pairs drawn so far.
\<close>

record Benchmark = GameState +
  agents :: "Agent list"
  doublesCount :: int
  currentDiceRoll :: "Roll option"
  lastCardDrawn :: "(string \<times> Card) option"
  diceUsed :: nat

datatype Reason = Msg string | Need int | NeedHave int int

datatype Payload =
    NoPayload
  | AuctionStarted
  | Bought int
  | RolledToJail Roll
  | Rolled Roll int bool bool bool "(string \<times> Card) option"
  | Bid "int option"
  | Passed
  | TradePending
  | Accepted bool
  | StateInfo
  | PropertyInfo Property
  | TurnEnded

text \<open>A tool result: \<open>{success: false, error}\<close> or \<open>{success: true, ...}\<close>.\<close>

datatype ToolResult = Failure Reason | Success Payload

definition updPlayer :: "nat \<Rightarrow> (Player \<Rightarrow> Player) \<Rightarrow> Benchmark \<Rightarrow> Benchmark" where
  "updPlayer i f b = b\<lparr>players := (players b)[i := f (players b ! i)]\<rparr>"

definition updProperty :: "nat \<Rightarrow> (Property \<Rightarrow> Property) \<Rightarrow> Benchmark \<Rightarrow> Benchmark" where
  "updProperty k f b = b\<lparr>properties := (properties b)[k := f (properties b ! k)]\<rparr>"

section \<open>Transaction resolver (game.ts)\<close>

text \<open>
  \<open>properties.find((p) => p.tile.location === loc)\<close>. A tool argument
  \<open>args.propertyLocation\<close> that is missing or not a number is \<open>None\<close>: it equals no
  location.
\<close>

definition findProperty :: "Benchmark \<Rightarrow> int option \<Rightarrow> nat option" where
  "findProperty b loc = findIndex (\<lambda>p. Some (location (tile p)) = loc) (properties b)"

definition getHouseCost :: "tile \<Rightarrow> int" where
  "getHouseCost t = orZero (houseCost (attributes t))"

definition hasMonopoly :: "Benchmark \<Rightarrow> string \<Rightarrow> tile \<Rightarrow> bool" where
  "hasMonopoly b playerId t =
     (if \<not> truthyStr (color (attributes t)) then False
      else list_all (\<lambda>p. owner p = Some playerId)
             (filter (\<lambda>p. color (attributes (tile p)) = color (attributes t)) (properties b)))"

definition ownedGroup :: "Benchmark \<Rightarrow> string \<Rightarrow> tile \<Rightarrow> Property list" where
  "ownedGroup b playerId t =
     filter (\<lambda>p. color (attributes (tile p)) = color (attributes t) \<and> owner p = Some playerId)
       (properties b)"

definition canBuildEvenly :: "Benchmark \<Rightarrow> string \<Rightarrow> tile \<Rightarrow> bool" where
  "canBuildEvenly b playerId t =
     (if \<not> truthyStr (color (attributes t)) then False
      else let grp = ownedGroup b playerId t in
        case find (\<lambda>p. location (tile p) = location t) grp of
          None \<Rightarrow> False
        | Some current \<Rightarrow>
            (case map houses grp of
               [] \<Rightarrow> False
             | h # hs \<Rightarrow> houses current = minOf h hs))"

definition canSellEvenly :: "Benchmark \<Rightarrow> string \<Rightarrow> tile \<Rightarrow> bool" where
  "canSellEvenly b playerId t =
     (if \<not> truthyStr (color (attributes t)) then False
      else let grp = ownedGroup b playerId t in
        case find (\<lambda>p. location (tile p) = location t) grp of
          None \<Rightarrow> False
        | Some current \<Rightarrow>
            (case map houses grp of
               [] \<Rightarrow> False
             | h # hs \<Rightarrow> houses current = maxOf h hs))"

definition colorGroupHasBuildings :: "Benchmark \<Rightarrow> string \<Rightarrow> tile \<Rightarrow> bool" where
  "colorGroupHasBuildings b playerId t =
     (if \<not> truthyStr (color (attributes t)) then False
      else list_ex (\<lambda>p. houses p > 0 \<or> hotels p > 0) (ownedGroup b playerId t))"

text \<open>
  \<open>Math.floor(cost * 0.8)\<close>. The double nearest to 0.8 is \<open>0.8 * (1 + 2^-54)\<close>, so for an
  integer cost below \<open>2^49\<close> the rounded product has the same floor as the exact
  \<open>4 * cost / 5\<close>.
\<close>

definition auctionMaxBid :: "int \<Rightarrow> int" where
  "auctionMaxBid c = (c * 4) div 5"

definition auctionStep :: "Benchmark \<Rightarrow> int \<Rightarrow> nat \<Rightarrow> int \<times> nat option \<Rightarrow> int \<times> nat option" where
  "auctionStep b maxBid i acc =
     (if money (players b ! i) > maxBid \<and> maxBid > fst acc then (maxBid, Some i) else acc)"

text \<open>
  \<open>startAuction\<close>: the loop runs over the non-bankrupt players in turn order, carrying
  \<open>(bestBid, winner)\<close>; the winner is a player object, here its index.
\<close>

definition startAuction :: "Benchmark \<Rightarrow> nat \<Rightarrow> Benchmark" where
  "startAuction b k =
     (let property = properties b ! k;
          cands = filter (\<lambda>i. \<not> bankrupt (players b ! i)) [0..<length (players b)];
          maxBid = auctionMaxBid (orZero (cost (attributes (tile property))));
          res = fold (auctionStep b maxBid) cands (0, None)
      in case snd res of
           None \<Rightarrow> b
         | Some w \<Rightarrow>
             if fst res > 0 then
               updPlayer w (\<lambda>p. p\<lparr>propertyLocs := propertyLocs p @ [location (tile property)]\<rparr>)
                 (updProperty k (\<lambda>q. q\<lparr>owner := Some (pid (players b ! w))\<rparr>)
                   (updPlayer w (\<lambda>p. p\<lparr>money := money p - fst res\<rparr>) b))
             else b)"

text \<open>
  \<open>handleBuyProperty\<close>. With \<open>tiles[player.position]\<close> undefined, the callback of
  \<open>find\<close> throws on the first property it is given.
\<close>

definition handleBuyProperty ::
  "tile list \<Rightarrow> Benchmark \<Rightarrow> nat \<Rightarrow> bool \<Rightarrow> exn + (ToolResult \<times> Benchmark)" where
  "handleBuyProperty tiles b pix confirm =
     (let player = players b ! pix in
      case lookup tiles (position player) of
        None \<Rightarrow>
          (if properties b = [] then Inr (Failure (Msg ''Not a purchasable property''), b)
           else Inl TypeError)
      | Some t \<Rightarrow>
          (case findProperty b (Some (location t)) of
             None \<Rightarrow> Inr (Failure (Msg ''Not a purchasable property''), b)
           | Some k \<Rightarrow>
               if owner (properties b ! k) \<noteq> None then Inr (Failure (Msg ''Already owned''), b)
               else
                 let c = orZero (cost (attributes t)) in
                 if \<not> confirm then Inr (Success AuctionStarted, startAuction b k)
                 else if money player < c then Inr (Failure (NeedHave c (money player)), b)
                 else Inr (Success (Bought c),
                   updPlayer pix (\<lambda>p. p\<lparr>propertyLocs := propertyLocs p @ [location t]\<rparr>)
                     (updProperty k (\<lambda>q. q\<lparr>owner := Some (pid player)\<rparr>)
                       (updPlayer pix (\<lambda>p. p\<lparr>money := money p - c\<rparr>) b)))))"

definition handleBuildHouse :: "Benchmark \<Rightarrow> nat \<Rightarrow> int option \<Rightarrow> ToolResult \<times> Benchmark" where
  "handleBuildHouse b pix loc =
     (let player = players b ! pix in
      case findProperty b loc of
        None \<Rightarrow> (Failure (Msg ''Property not found''), b)
      | Some k \<Rightarrow>
          let property = properties b ! k in
          if owner property \<noteq> Some (pid player) then (Failure (Msg ''Not owner''), b)
          else if \<not> hasMonopoly b (pid player) (tile property) then
            (Failure (Msg ''Need full color group to build''), b)
          else if hotels property > 0 then (Failure (Msg ''Has a hotel already''), b)
          else if houses property \<ge> 4 then
            (Failure (Msg ''Already 4 houses, build hotel instead''), b)
          else if \<not> canBuildEvenly b (pid player) (tile property) then
            (Failure (Msg ''Must build evenly across color group''), b)
          else if housesBank b \<le> 0 then (Failure (Msg ''No houses in bank''), b)
          else
            let c = getHouseCost (tile property) in
            if money player < c then (Failure (Need c), b)
            else (Success NoPayload,
              (updProperty k (\<lambda>q. q\<lparr>houses := houses q + 1\<rparr>)
                (updPlayer pix (\<lambda>p. p\<lparr>money := money p - c\<rparr>) b))
              \<lparr>housesBank := housesBank b - 1\<rparr>))"

definition handleBuildHotel :: "Benchmark \<Rightarrow> nat \<Rightarrow> int option \<Rightarrow> ToolResult \<times> Benchmark" where
  "handleBuildHotel b pix loc =
     (let player = players b ! pix in
      case findProperty b loc of
        None \<Rightarrow> (Failure (Msg ''Property not found''), b)
      | Some k \<Rightarrow>
          let property = properties b ! k in
          if owner property \<noteq> Some (pid player) then (Failure (Msg ''Not owner''), b)
          else if houses property \<noteq> 4 then
            (Failure (Msg ''Must have exactly 4 houses to build hotel''), b)
          else if hotelsBank b \<le> 0 then (Failure (Msg ''No hotels in bank''), b)
          else
            let c = getHouseCost (tile property) in
            if money player < c then (Failure (Need c), b)
            else (Success NoPayload,
              (updProperty k (\<lambda>q. q\<lparr>houses := 0, hotels := 1\<rparr>)
                (updPlayer pix (\<lambda>p. p\<lparr>money := money p - c\<rparr>) b))
              \<lparr>housesBank := housesBank b + 4, hotelsBank := hotelsBank b - 1\<rparr>))"

definition handleMortgageProperty :: "Benchmark \<Rightarrow> nat \<Rightarrow> int option \<Rightarrow> ToolResult \<times> Benchmark" where
  "handleMortgageProperty b pix loc =
     (let player = players b ! pix in
      case findProperty b loc of
        None \<Rightarrow> (Failure (Msg ''Property not found''), b)
      | Some k \<Rightarrow>
          let property = properties b ! k in
          if owner property \<noteq> Some (pid player) then (Failure (Msg ''Not owner''), b)
          else if mortgaged property then (Failure (Msg ''Already mortgaged''), b)
          else if colorGroupHasBuildings b (pid player) (tile property) then
            (Failure (Msg ''Sell all buildings in color group first''), b)
          else
            let v = orZero (cost (attributes (tile property))) div 2 in
            (Success NoPayload,
              updProperty k (\<lambda>q. q\<lparr>mortgaged := True\<rparr>)
                (updPlayer pix (\<lambda>p. p\<lparr>money := money p + v\<rparr>) b)))"

text \<open>
  \<open>Math.floor(mort * 1.1)\<close>: the double nearest to 1.1 lies above 1.1, so for an integer
  \<open>mort \<ge> 0\<close> below \<open>2^49\<close> the floor of the rounded product is that of the exact
  \<open>11 * mort / 10\<close>.
\<close>

definition handleUnmortgageProperty :: "Benchmark \<Rightarrow> nat \<Rightarrow> int option \<Rightarrow> ToolResult \<times> Benchmark" where
  "handleUnmortgageProperty b pix loc =
     (let player = players b ! pix in
      case findProperty b loc of
        None \<Rightarrow> (Failure (Msg ''Property not found''), b)
      | Some k \<Rightarrow>
          let property = properties b ! k in
          if owner property \<noteq> Some (pid player) then (Failure (Msg ''Not owner''), b)
          else if \<not> mortgaged property then (Failure (Msg ''Not mortgaged''), b)
          else
            let mort = orZero (cost (attributes (tile property))) div 2;
                c = (mort * 11) div 10 in
            if money player < c then (Failure (Need c), b)
            else (Success NoPayload,
              updProperty k (\<lambda>q. q\<lparr>mortgaged := False\<rparr>)
                (updPlayer pix (\<lambda>p. p\<lparr>money := money p - c\<rparr>) b)))"

definition handleSellHouse :: "Benchmark \<Rightarrow> nat \<Rightarrow> int option \<Rightarrow> ToolResult \<times> Benchmark" where
  "handleSellHouse b pix loc =
     (let player = players b ! pix in
      case findProperty b loc of
        None \<Rightarrow> (Failure (Msg ''Property not found''), b)
      | Some k \<Rightarrow>
          let property = properties b ! k in
          if owner property \<noteq> Some (pid player) then (Failure (Msg ''Not owner''), b)
          else if houses property = 0 then (Failure (Msg ''No houses to sell''), b)
          else if \<not> canSellEvenly b (pid player) (tile property) then
            (Failure (Msg ''Must sell evenly across color group''), b)
          else
            let c = getHouseCost (tile property);
                v = c div 2 in
            (Success NoPayload,
              (updProperty k (\<lambda>q. q\<lparr>houses := houses q - 1\<rparr>)
                (updPlayer pix (\<lambda>p. p\<lparr>money := money p + v\<rparr>) b))
              \<lparr>housesBank := housesBank b + 1\<rparr>))"

definition handleSellHotel :: "Benchmark \<Rightarrow> nat \<Rightarrow> int option \<Rightarrow> ToolResult \<times> Benchmark" where
  "handleSellHotel b pix loc =
     (let player = players b ! pix in
      case findProperty b loc of
        None \<Rightarrow> (Failure (Msg ''Property not found''), b)
      | Some k \<Rightarrow>
          let property = properties b ! k in
          if owner property \<noteq> Some (pid player) then (Failure (Msg ''Not owner''), b)
          else if hotels property = 0 then (Failure (Msg ''No hotel to sell''), b)
          else
            let hc = getHouseCost (tile property);
                hotelCost = hc * 5;
                v = hotelCost div 2 in
            (Success NoPayload,
              (updProperty k (\<lambda>q. q\<lparr>hotels := 0, houses := 4\<rparr>)
                (updPlayer pix (\<lambda>p. p\<lparr>money := money p + v\<rparr>) b))
              \<lparr>hotelsBank := hotelsBank b + 1, housesBank := housesBank b - 4\<rparr>))"

definition handlePayJailFine :: "Benchmark \<Rightarrow> nat \<Rightarrow> ToolResult \<times> Benchmark" where
  "handlePayJailFine b pix =
     (let player = players b ! pix in
      if \<not> inJail player then (Failure (Msg ''Not in jail''), b)
      else if money player < 50 then (Failure (Msg ''Need $50''), b)
      else (Success NoPayload,
        updPlayer pix (\<lambda>p. p\<lparr>money := money p - 50, inJail := False, jailTurns := 0\<rparr>) b))"

definition handleUseJailCard :: "Benchmark \<Rightarrow> nat \<Rightarrow> ToolResult \<times> Benchmark" where
  "handleUseJailCard b pix =
     (let player = players b ! pix in
      if \<not> inJail player then (Failure (Msg ''Not in jail''), b)
      else if jailFreeCards player = 0 then
        (Failure (Msg ''No Get Out of Jail Free card''), b)
      else (Success NoPayload,
        updPlayer pix
          (\<lambda>p. p\<lparr>jailFreeCards := jailFreeCards p - 1, inJail := False, jailTurns := 0\<rparr>) b))"

section \<open>Bankruptcy settlement\<close>

text \<open>
  \<open>handleBankruptcy(player, creditor)\<close>: the debtor is the player at index \<open>pix\<close>, the
  creditor a player index or \<open>None\<close> for the bank. The statements run in the source's
  order on the shared player objects.
\<close>

definition handleBankruptcy :: "Benchmark \<Rightarrow> nat \<Rightarrow> nat option \<Rightarrow> Benchmark" where
  "handleBankruptcy b pix creditor =
     (let b1 = updPlayer pix (\<lambda>p. p\<lparr>bankrupt := True\<rparr>) b;
          playerId = pid (players b1 ! pix);
          b2 = (case creditor of
                  Some ci \<Rightarrow>
                    let c1 = updPlayer ci (\<lambda>c. c\<lparr>money := money c + money (players b1 ! pix)\<rparr>) b1;
                        creditorId = pid (players c1 ! ci);
                        owned = filter (\<lambda>p. owner p = Some playerId) (properties c1);
                        c2 = c1\<lparr>properties :=
                               map (\<lambda>p. if owner p = Some playerId then p\<lparr>owner := Some creditorId\<rparr> else p)
                                 (properties c1)\<rparr>;
                        c3 = updPlayer ci
                               (\<lambda>c. c\<lparr>propertyLocs := propertyLocs c @ map (\<lambda>p. location (tile p)) owned\<rparr>) c2
                    in updPlayer ci
                         (\<lambda>c. c\<lparr>jailFreeCards := jailFreeCards c + jailFreeCards (players c3 ! pix)\<rparr>) c3
                | None \<Rightarrow>
                    b1\<lparr>properties :=
                         map (\<lambda>p. if owner p = Some playerId
                                   then p\<lparr>hotels := 0, houses := 0, owner := None, mortgaged := False\<rparr>
                                   else p)
                           (properties b1)\<rparr>)
      in updPlayer pix (\<lambda>p. p\<lparr>money := 0, propertyLocs := [], jailFreeCards := 0\<rparr>) b2)"

section \<open>Dice, agents and rent\<close>

definition resetForNewTurn :: "Agent \<Rightarrow> Agent" where
  "resetForNewTurn a = a\<lparr>turnInteractionCount := 0, hasRolledThisTurn := False, doublesCountA := 0\<rparr>"

definition markRollResult :: "bool \<Rightarrow> Agent \<Rightarrow> Agent" where
  "markRollResult d a =
     (let a1 = a\<lparr>hasRolledThisTurn := True\<rparr>
      in if d then a1\<lparr>doublesCountA := doublesCountA a1 + 1\<rparr> else a1)"

definition canRollDice :: "Agent \<Rightarrow> bool" where
  "canRollDice a = (\<not> hasRolledThisTurn a \<or> (doublesCountA a > 0 \<and> doublesCountA a < 3))"

definition updAgent :: "nat \<Rightarrow> (Agent \<Rightarrow> Agent) \<Rightarrow> Benchmark \<Rightarrow> Benchmark" where
  "updAgent i f b = b\<lparr>agents := (agents b)[i := f (agents b ! i)]\<rparr>"

definition rollDice :: "(nat \<Rightarrow> int \<times> int) \<Rightarrow> Benchmark \<Rightarrow> Roll \<times> Benchmark" where
  "rollDice rng b =
     (let d1 = fst (rng (diceUsed b)); d2 = snd (rng (diceUsed b))
      in (\<lparr>die1 = d1, die2 = d2, total = d1 + d2, doubles = (d1 = d2)\<rparr>,
          b\<lparr>diceUsed := Suc (diceUsed b)\<rparr>))"

definition sendToJail :: "Benchmark \<Rightarrow> nat \<Rightarrow> Benchmark" where
  "sendToJail b pix = updPlayer pix (\<lambda>p. p\<lparr>position := 10, inJail := True, jailTurns := 0\<rparr>) b"

definition countRailroadsOwned :: "Benchmark \<Rightarrow> string \<Rightarrow> int" where
  "countRailroadsOwned b playerId =
     int (length (filter (\<lambda>p. tileType (tile p) = ''railroad'' \<and> owner p = Some playerId)
                    (properties b)))"

definition countUtilitiesOwned :: "Benchmark \<Rightarrow> string \<Rightarrow> int" where
  "countUtilitiesOwned b playerId =
     int (length (filter (\<lambda>p. tileType (tile p) = ''utilities'' \<and> owner p = Some playerId)
                    (properties b)))"

definition calculateHouseRent :: "Property \<Rightarrow> int" where
  "calculateHouseRent property =
     (let a = attributes (tile property) in
      if houses property = 1 then orZero (rent1House a)
      else if houses property = 2 then orZero (rent2Houses a)
      else if houses property = 3 then orZero (rent3Houses a)
      else if houses property = 4 then orZero (rent4Houses a)
      else orZero (rent_amount a))"

definition calculateHotelRent :: "Property \<Rightarrow> int" where
  "calculateHotelRent property = orZero (rentHotel (attributes (tile property)))"

text \<open>
  \<open>25 * Math.pow(2, count - 1)\<close>: where it is computed the owner holds the railroad landed
  on, so \<open>count \<ge> 1\<close> and the power is an integer.
\<close>

definition railroadRent :: "int \<Rightarrow> int" where
  "railroadRent n = 25 * 2 ^ nat (n - 1)"

definition findOwner :: "Benchmark \<Rightarrow> Property \<Rightarrow> nat option" where
  "findOwner b property = findIndex (\<lambda>p. Some (pid p) = owner property) (players b)"

definition payRent :: "Benchmark \<Rightarrow> nat \<Rightarrow> nat \<Rightarrow> Benchmark" where
  "payRent b pix k =
     (let property = properties b ! k in
      if mortgaged property then b
      else case findOwner b property of
        None \<Rightarrow> b
      | Some oi \<Rightarrow>
          if bankrupt (players b ! oi) then b
          else
            let ownerId = pid (players b ! oi);
                r0 = orZero (rent_amount (attributes (tile property)));
                r1 = (if hotels property > 0 then calculateHotelRent property
                      else if houses property > 0 then calculateHouseRent property
                      else if hasMonopoly b ownerId (tile property) then r0 * 2
                      else r0);
                r2 = (if tileType (tile property) = ''railroad''
                      then railroadRent (countRailroadsOwned b ownerId) else r1);
                rent = (case currentDiceRoll b of
                          Some roll \<Rightarrow>
                            if tileType (tile property) = ''utilities''
                            then total roll * (if countUtilitiesOwned b ownerId = 1 then 4 else 10)
                            else r2
                        | None \<Rightarrow> r2)
            in if money (players b ! pix) \<ge> rent
               then updPlayer oi (\<lambda>p. p\<lparr>money := money p + rent\<rparr>)
                      (updPlayer pix (\<lambda>p. p\<lparr>money := money p - rent\<rparr>) b)
               else handleBankruptcy b pix (Some oi))"

definition handlePropertyLanding :: "Benchmark \<Rightarrow> nat \<Rightarrow> tile \<Rightarrow> Benchmark" where
  "handlePropertyLanding b pix t =
     (case findProperty b (Some (location t)) of
        None \<Rightarrow> b
      | Some k \<Rightarrow>
          if owner (properties b ! k) = None then b
          else if owner (properties b ! k) = Some (pid (players b ! pix)) then b
          else payRent b pix k)"

definition calculateNetWorth :: "Benchmark \<Rightarrow> nat \<Rightarrow> int" where
  "calculateNetWorth b pix =
     money (players b ! pix) +
     sum_list (map (\<lambda>p. orZero (cost (attributes (tile p)))
                        + houses p * getHouseCost (tile p)
                        + hotels p * getHouseCost (tile p) * 5
                        - (if mortgaged p then orZero (cost (attributes (tile p))) div 2 else 0))
                 (filter (\<lambda>p. owner p = Some (pid (players b ! pix))) (properties b)))"

text \<open>
  \<open>Math.floor(worth * 0.1)\<close>: the double nearest to 0.1 is \<open>0.1 * (1 + 2^-54)\<close>, so for an
  integer worth of size below \<open>2^49\<close> the floor is that of the exact \<open>worth / 10\<close>.
\<close>

definition handleIncomeTax :: "Benchmark \<Rightarrow> nat \<Rightarrow> Benchmark" where
  "handleIncomeTax b pix =
     (let worth = calculateNetWorth b pix;
          tax = min 200 (worth div 10)
      in if money (players b ! pix) \<ge> tax
         then updPlayer pix (\<lambda>p. p\<lparr>money := money p - tax\<rparr>) b
         else handleBankruptcy b pix None)"

definition handleLuxuryTax :: "Benchmark \<Rightarrow> nat \<Rightarrow> Benchmark" where
  "handleLuxuryTax b pix =
     (if money (players b ! pix) \<ge> 75
      then updPlayer pix (\<lambda>p. p\<lparr>money := money p - 75\<rparr>) b
      else handleBankruptcy b pix None)"

section \<open>Card effects\<close>

definition bindE :: "exn + 'a \<Rightarrow> ('a \<Rightarrow> exn + 'b) \<Rightarrow> exn + 'b" where
  "bindE m f = (case m of Inl e \<Rightarrow> Inl e | Inr x \<Rightarrow> f x)"

text \<open>\<open>card.attributes || {}\<close>.\<close>

definition noAttributes :: cardAttributes where
  "noAttributes = \<lparr>amount = None, cardLocation = None, jailFreeCard = False,
     collectFromPlayers = False, payToPlayers = False, perPlayer = None, moveSpaces = None,
     moveToNearest = None, rentMultiplier = None, diceMultiplier = None, perHouse = None,
     perHotel = None, collectOnPassGo = False\<rparr>"

definition attrsOf :: "Card \<Rightarrow> cardAttributes" where
  "attrsOf crd = (case cardAttrs crd of None \<Rightarrow> noAttributes | Some a \<Rightarrow> a)"

text \<open>\<open>tiles[player.position].name\<close> in a console message throws when the tile is undefined.\<close>

definition tileDefined :: "tile list \<Rightarrow> Benchmark \<Rightarrow> nat \<Rightarrow> bool" where
  "tileDefined tiles b pix = (lookup tiles (position (players b ! pix)) \<noteq> None)"

text \<open>\<open>players.filter((p) => !p.bankrupt && p.id !== player.id)\<close>, as indices.\<close>

definition otherPlayers :: "Benchmark \<Rightarrow> nat \<Rightarrow> nat list" where
  "otherPlayers b pix =
     filter (\<lambda>i. \<not> bankrupt (players b ! i) \<and> pid (players b ! i) \<noteq> pid (players b ! pix))
       [0..<length (players b)]"

text \<open>The rent settlement of the nearest-railroad/utility cards against the owner \<open>oi\<close>.\<close>

definition payOrBankrupt :: "Benchmark \<Rightarrow> nat \<Rightarrow> nat \<Rightarrow> int \<Rightarrow> Benchmark" where
  "payOrBankrupt b pix oi rent =
     (if money (players b ! pix) \<ge> rent
      then updPlayer oi (\<lambda>p. p\<lparr>money := money p + rent\<rparr>)
             (updPlayer pix (\<lambda>p. p\<lparr>money := money p - rent\<rparr>) b)
      else handleBankruptcy b pix (Some oi))"

definition nearestPosition :: "string \<Rightarrow> int \<Rightarrow> int" where
  "nearestPosition targetType currentPos =
     (if targetType = ''railroad'' then
        (case find (\<lambda>r. r > currentPos) [5, 15, 25, 35] of Some r \<Rightarrow> r | None \<Rightarrow> 5)
      else if targetType = ''utility'' then
        (case find (\<lambda>u. u > currentPos) [12, 28] of Some u \<Rightarrow> u | None \<Rightarrow> 12)
      else - 1)"

text \<open>
  The blocks of \<open>executeCardEffect\<close>, in the source's order. \<open>land\<close> is the recursive call
  \<open>this.handleLanding(player)\<close>.
\<close>

definition cardMoveToNearest ::
  "(Benchmark \<Rightarrow> nat \<Rightarrow> exn + Benchmark) \<Rightarrow> tile list \<Rightarrow> (nat \<Rightarrow> int \<times> int) \<Rightarrow> Benchmark \<Rightarrow> nat
     \<Rightarrow> cardAttributes \<Rightarrow> exn + Benchmark" where
  "cardMoveToNearest land tiles rng b pix attrs =
     (let oldPos = position (players b ! pix);
          nearestPos = nearestPosition (case moveToNearest attrs of Some s \<Rightarrow> s | None \<Rightarrow> []) oldPos
      in if nearestPos = - 1 then Inr b
         else
           let b1 = updPlayer pix (\<lambda>p. p\<lparr>position := nearestPos\<rparr>) b;
               b2 = (if nearestPos < oldPos
                     then updPlayer pix (\<lambda>p. p\<lparr>money := money p + 200\<rparr>) b1 else b1)
           in if \<not> tileDefined tiles b2 pix then Inl TypeError
              else case findProperty b2 (Some nearestPos) of
                None \<Rightarrow> land b2 pix
              | Some k \<Rightarrow>
                  let property = properties b2 ! k in
                  if truthyStr (owner property) \<and> owner property \<noteq> Some (pid (players b2 ! pix))
                  then
                    (case findOwner b2 property of
                       None \<Rightarrow> Inr b2
                     | Some oi \<Rightarrow>
                         if bankrupt (players b2 ! oi) then Inr b2
                         else
                           let b3 = (if truthyNum (rentMultiplier attrs) then
                                       let baseRent =
                                             (if tileType (tile property) = ''railroad''
                                              then railroadRent
                                                     (countRailroadsOwned b2 (pid (players b2 ! oi)))
                                              else orZero (rent_amount (attributes (tile property))))
                                       in payOrBankrupt b2 pix oi
                                            (baseRent * orZero (rentMultiplier attrs))
                                     else b2)
                           in if truthyNum (diceMultiplier attrs) then
                                let rb = rollDice rng b3
                                in Inr (payOrBankrupt (snd rb) pix oi
                                          (total (fst rb) * orZero (diceMultiplier attrs)))
                              else Inr b3)
                  else land b2 pix)"

definition cardMoveToLocation ::
  "(Benchmark \<Rightarrow> nat \<Rightarrow> exn + Benchmark) \<Rightarrow> tile list \<Rightarrow> Benchmark \<Rightarrow> nat \<Rightarrow> cardAttributes
     \<Rightarrow> exn + Benchmark" where
  "cardMoveToLocation land tiles b pix attrs =
     (case cardLocation attrs of
        None \<Rightarrow> Inr b
      | Some l \<Rightarrow>
          let old = position (players b ! pix);
              b1 = updPlayer pix (\<lambda>p. p\<lparr>position := l\<rparr>) b;
              b2 = (if collectOnPassGo attrs \<and> l < old
                    then updPlayer pix (\<lambda>p. p\<lparr>money := money p + 200\<rparr>) b1 else b1)
          in if \<not> tileDefined tiles b2 pix then Inl TypeError else land b2 pix)"

definition cardAmount :: "Benchmark \<Rightarrow> nat \<Rightarrow> cardAttributes \<Rightarrow> Benchmark" where
  "cardAmount b pix attrs =
     (case amount attrs of
        None \<Rightarrow> b
      | Some a \<Rightarrow> updPlayer pix (\<lambda>p. p\<lparr>money := money p + a\<rparr>) b)"

definition cardJailFree :: "Benchmark \<Rightarrow> nat \<Rightarrow> cardAttributes \<Rightarrow> Benchmark" where
  "cardJailFree b pix attrs =
     (if jailFreeCard attrs
      then updPlayer pix (\<lambda>p. p\<lparr>jailFreeCards := jailFreeCards p + 1\<rparr>) b else b)"

definition cardGoToJail :: "Benchmark \<Rightarrow> nat \<Rightarrow> Card \<Rightarrow> Benchmark" where
  "cardGoToJail b pix crd = (if cardType crd = ''movement_jail'' then sendToJail b pix else b)"

text \<open>
  One pass of the loop \<open>for (const p of others)\<close> of the collect block: \<open>p\<close> is the player
  at index \<open>i\<close>, the drawer the player at \<open>pix\<close>.
\<close>

definition collectFrom :: "nat \<Rightarrow> int \<Rightarrow> nat \<Rightarrow> Benchmark \<Rightarrow> Benchmark" where
  "collectFrom pix per i b =
     (let amt = min (money (players b ! i)) per
      in updPlayer pix (\<lambda>p. p\<lparr>money := money p + amt\<rparr>)
           (updPlayer i (\<lambda>p. p\<lparr>money := money p - amt\<rparr>) b))"

definition cardCollectFromPlayers :: "Benchmark \<Rightarrow> nat \<Rightarrow> cardAttributes \<Rightarrow> Benchmark" where
  "cardCollectFromPlayers b pix attrs =
     (if collectFromPlayers attrs \<and> truthyNum (perPlayer attrs)
      then fold (collectFrom pix (orZero (perPlayer attrs))) (otherPlayers b pix) b
      else b)"

definition payTo :: "nat \<Rightarrow> int \<Rightarrow> nat \<Rightarrow> Benchmark \<Rightarrow> Benchmark" where
  "payTo pix per i b =
     updPlayer i (\<lambda>p. p\<lparr>money := money p + per\<rparr>)
       (updPlayer pix (\<lambda>p. p\<lparr>money := money p - per\<rparr>) b)"

definition cardPayToPlayers :: "Benchmark \<Rightarrow> nat \<Rightarrow> cardAttributes \<Rightarrow> Benchmark" where
  "cardPayToPlayers b pix attrs =
     (if payToPlayers attrs \<and> truthyNum (perPlayer attrs) then
        let others = otherPlayers b pix;
            per = orZero (perPlayer attrs);
            tot = per * int (length others)
        in if money (players b ! pix) \<ge> tot then fold (payTo pix per) others b
           else handleBankruptcy b pix None
      else b)"

definition cardRepairs :: "Benchmark \<Rightarrow> nat \<Rightarrow> cardAttributes \<Rightarrow> Benchmark" where
  "cardRepairs b pix attrs =
     (if truthyNum (perHouse attrs) \<or> truthyNum (perHotel attrs) then
        let tot = sum_list
              (map (\<lambda>p. (if truthyNum (perHouse attrs) then houses p * orZero (perHouse attrs) else 0)
                       + (if truthyNum (perHotel attrs) then hotels p * orZero (perHotel attrs) else 0))
                 (filter (\<lambda>p. owner p = Some (pid (players b ! pix))) (properties b)))
        in if money (players b ! pix) \<ge> tot
           then updPlayer pix (\<lambda>p. p\<lparr>money := money p - tot\<rparr>) b
           else handleBankruptcy b pix None
      else b)"

definition executeCardEffect ::
  "(Benchmark \<Rightarrow> nat \<Rightarrow> exn + Benchmark) \<Rightarrow> tile list \<Rightarrow> (nat \<Rightarrow> int \<times> int) \<Rightarrow> Benchmark \<Rightarrow> nat
     \<Rightarrow> Card \<Rightarrow> exn + Benchmark" where
  "executeCardEffect land tiles rng b pix crd =
     (let attrs = attrsOf crd in
      case moveSpaces attrs of
        Some ms \<Rightarrow>
          let b1 = updPlayer pix (\<lambda>p. p\<lparr>position := js_rem (position p + ms + 40) 40\<rparr>) b
          in if \<not> tileDefined tiles b1 pix then Inl TypeError else land b1 pix
      | None \<Rightarrow>
          if truthyStr (moveToNearest attrs) then cardMoveToNearest land tiles rng b pix attrs
          else
            bindE (cardMoveToLocation land tiles b pix attrs)
              (\<lambda>b1. Inr (cardRepairs (cardPayToPlayers (cardCollectFromPlayers
                       (cardGoToJail (cardJailFree (cardAmount b1 pix attrs) pix attrs) pix crd)
                       pix attrs) pix attrs) pix attrs)))"

text \<open>Drawing: the first card goes to the back of its deck; an empty deck gives \<open>undefined\<close>.\<close>

definition drawChanceCard ::
  "(Benchmark \<Rightarrow> nat \<Rightarrow> exn + Benchmark) \<Rightarrow> tile list \<Rightarrow> (nat \<Rightarrow> int \<times> int) \<Rightarrow> Benchmark \<Rightarrow> nat
     \<Rightarrow> exn + Benchmark" where
  "drawChanceCard land tiles rng b pix =
     (case chanceCards b of
        [] \<Rightarrow> Inl TypeError
      | crd # rest \<Rightarrow>
          executeCardEffect land tiles rng
            (b\<lparr>chanceCards := rest @ [crd], lastCardDrawn := Some (''chance'', crd)\<rparr>) pix crd)"

definition drawCommunityChestCard ::
  "(Benchmark \<Rightarrow> nat \<Rightarrow> exn + Benchmark) \<Rightarrow> tile list \<Rightarrow> (nat \<Rightarrow> int \<times> int) \<Rightarrow> Benchmark \<Rightarrow> nat
     \<Rightarrow> exn + Benchmark" where
  "drawCommunityChestCard land tiles rng b pix =
     (case communityChestCards b of
        [] \<Rightarrow> Inl TypeError
      | crd # rest \<Rightarrow>
          executeCardEffect land tiles rng
            (b\<lparr>communityChestCards := rest @ [crd],
               lastCardDrawn := Some (''community_chest'', crd)\<rparr>) pix crd)"

section \<open>Turn engine\<close>

text \<open>
  \<open>handleLanding\<close>. A card can move the player onto another card tile, so the recursion
  through \<open>executeCardEffect\<close> has no bound of its own: the first argument is the number of
  nested landings allowed, and running out of it is \<open>OutOfFuel\<close>.
\<close>

primrec handleLanding ::
  "nat \<Rightarrow> tile list \<Rightarrow> (nat \<Rightarrow> int \<times> int) \<Rightarrow> Benchmark \<Rightarrow> nat \<Rightarrow> exn + Benchmark" where
  "handleLanding 0 tiles rng b pix = Inl OutOfFuel"
| "handleLanding (Suc n) tiles rng b pix =
     (case lookup tiles (position (players b ! pix)) of
        None \<Rightarrow> Inl TypeError
      | Some t \<Rightarrow>
          if tileType t = ''go'' then Inr b
          else if tileType t = ''colored'' \<or> tileType t = ''railroad'' \<or> tileType t = ''utilities''
            then Inr (handlePropertyLanding b pix t)
          else if tileType t = ''chance'' then drawChanceCard (handleLanding n tiles rng) tiles rng b pix
          else if tileType t = ''community_chest''
            then drawCommunityChestCard (handleLanding n tiles rng) tiles rng b pix
          else if tileType t = ''income_tax'' then Inr (handleIncomeTax b pix)
          else if tileType t = ''luxury_tax'' then Inr (handleLuxuryTax b pix)
          else if tileType t = ''go_to_jail'' then Inr (sendToJail b pix)
          else Inr b)"

text \<open>The movement of \<open>handleRollDice\<close>: new position and the Go bonus.\<close>

definition movePlayer :: "Benchmark \<Rightarrow> nat \<Rightarrow> int \<Rightarrow> Benchmark" where
  "movePlayer b pix tot =
     (let oldPos = position (players b ! pix);
          b1 = updPlayer pix (\<lambda>p. p\<lparr>position := js_rem (position p + tot) 40\<rparr>) b
      in if position (players b1 ! pix) < oldPos \<or> oldPos + tot \<ge> 40
         then updPlayer pix (\<lambda>p. p\<lparr>money := money p + 200\<rparr>) b1
         else b1)"

definition passedGo :: "Benchmark \<Rightarrow> nat \<Rightarrow> int \<Rightarrow> bool" where
  "passedGo b pix tot =
     (js_rem (position (players b ! pix) + tot) 40 < position (players b ! pix)
      \<or> position (players b ! pix) + tot \<ge> 40)"

text \<open>
  The rest of \<open>handleRollDice\<close> after the move: landing and the result object. \<open>b\<close> is the
  state after the move, \<open>pg\<close> the value of \<open>passedGo\<close>.
\<close>

definition landAfterMove ::
  "nat \<Rightarrow> tile list \<Rightarrow> (nat \<Rightarrow> int \<times> int) \<Rightarrow> Benchmark \<Rightarrow> nat \<Rightarrow> Roll \<Rightarrow> bool
     \<Rightarrow> exn + (ToolResult \<times> Benchmark)" where
  "landAfterMove fuel tiles rng b pix roll pg =
     (if \<not> tileDefined tiles b pix then Inl TypeError
      else bindE (handleLanding fuel tiles rng (b\<lparr>lastCardDrawn := None\<rparr>) pix)
        (\<lambda>b1. if \<not> tileDefined tiles b1 pix then Inl TypeError
               else Inr (Success (Rolled roll (position (players b1 ! pix)) (doubles roll)
                                    (doubles roll \<and> doublesCount b1 < 3) pg (lastCardDrawn b1)), b1)))"

text \<open>
  The bookkeeping of an accepted roll in \<open>handleRollDice\<close>, from \<open>rollDice()\<close> to
  \<open>this.doublesCount++\<close>. The agent is \<open>getCurrentAgent()\<close>, the one at
  \<open>currentPlayerIndex\<close>.
\<close>

definition recordRoll :: "(nat \<Rightarrow> int \<times> int) \<Rightarrow> Benchmark \<Rightarrow> Benchmark" where
  "recordRoll rng b =
     (let roll = fst (rollDice rng b);
          b1 = (snd (rollDice rng b))\<lparr>currentDiceRoll := Some roll\<rparr>;
          b2 = updAgent (nat (currentPlayerIndex b)) (markRollResult (doubles roll)) b1
      in if doubles roll then b2\<lparr>doublesCount := doublesCount b2 + 1\<rparr> else b2)"

text \<open>
  \<open>handleRollDice\<close>. \<open>Rolled\<close> holds \<open>roll\<close>, \<open>newPosition\<close>, \<open>doubles\<close>, \<open>canRollAgain\<close>,
  \<open>passedGo\<close> and \<open>cardDrawn\<close> of the result object.
\<close>

definition handleRollDice ::
  "nat \<Rightarrow> tile list \<Rightarrow> (nat \<Rightarrow> int \<times> int) \<Rightarrow> Benchmark \<Rightarrow> nat \<Rightarrow> exn + (ToolResult \<times> Benchmark)" where
  "handleRollDice fuel tiles rng b pix =
     (case lookup (agents b) (currentPlayerIndex b) of
        None \<Rightarrow> Inl TypeError
      | Some agent \<Rightarrow>
          if \<not> canRollDice agent then
            Inr (Failure (Msg ''You already rolled dice this turn. Call end_turn to finish your turn.''), b)
          else
            let roll = fst (rollDice rng b);
                b3 = recordRoll rng b
            in if doubles roll \<and> doublesCount b3 = 3
               then Inr (Success (RolledToJail roll), sendToJail b3 pix)
               else landAfterMove fuel tiles rng (movePlayer b3 pix (total roll)) pix roll
                      (passedGo b3 pix (total roll)))"

definition handleJail ::
  "nat \<Rightarrow> tile list \<Rightarrow> (nat \<Rightarrow> int \<times> int) \<Rightarrow> Benchmark \<Rightarrow> nat \<Rightarrow> exn + Benchmark" where
  "handleJail fuel tiles rng b pix =
     (let b1 = updPlayer pix (\<lambda>p. p\<lparr>jailTurns := jailTurns p + 1\<rparr>) b in
      if jailTurns (players b1 ! pix) \<ge> 3 then
        (if money (players b1 ! pix) \<ge> 50
         then Inr (updPlayer pix (\<lambda>p. p\<lparr>money := money p - 50, inJail := False, jailTurns := 0\<rparr>) b1)
         else Inr (handleBankruptcy b1 pix None))
      else
        let roll = fst (rollDice rng b1); b2 = snd (rollDice rng b1) in
        if doubles roll then
          let b3 = updPlayer pix
                (\<lambda>p. p\<lparr>inJail := False, jailTurns := 0,
                        position := js_rem (position p + total roll) 40\<rparr>) b2
          in if \<not> tileDefined tiles b3 pix then Inl TypeError
             else handleLanding fuel tiles rng b3 pix
        else Inr b2)"

text \<open>
  \<open>nextPlayer\<close>: \<open>do { index = (index + 1) % n } while (current.bankrupt && !gameOver)\<close>.
  The loop visits the players cyclically, so if \<open>n\<close> passes have not ended it, none will:
  \<open>OutOfFuel\<close> here is the loop that never ends. With no players the index is \<open>NaN\<close> and
  \<open>getCurrentPlayer()\<close> is undefined.
\<close>

primrec nextPlayerLoop :: "nat \<Rightarrow> Benchmark \<Rightarrow> exn + Benchmark" where
  "nextPlayerLoop 0 b = Inl OutOfFuel"
| "nextPlayerLoop (Suc n) b =
     (if players b = [] then Inl TypeError
      else
        let b1 = b\<lparr>currentPlayerIndex :=
                     js_rem (currentPlayerIndex b + 1) (int (length (players b)))\<rparr>
        in case lookup (players b1) (currentPlayerIndex b1) of
             None \<Rightarrow> Inl TypeError
           | Some p \<Rightarrow> if bankrupt p \<and> \<not> gameOver b1 then nextPlayerLoop n b1 else Inr b1)"

definition nextPlayer :: "Benchmark \<Rightarrow> exn + Benchmark" where
  "nextPlayer b = (if players b = [] then Inl TypeError else nextPlayerLoop (length (players b)) b)"

section \<open>Commands and the decision loop\<close>

datatype Command =
    RollDice
  | BuyProperty bool
  | AuctionBid "int option"
  | PassAuction
  | BuildHouse "int option"
  | BuildHotel "int option"
  | MortgageProperty "int option"
  | UnmortgageProperty "int option"
  | SellHouse "int option"
  | SellHotel "int option"
  | PayJailFine
  | UseJailCard
  | TradeProperty
  | RespondToTrade bool
  | GetGameState
  | GetPropertyInfo "int option"
  | EndTurn
  | UnknownTool string

text \<open>\<open>handleGetGameState\<close> reads the tile name of every position and owned location.\<close>

definition handleGetGameState :: "tile list \<Rightarrow> Benchmark \<Rightarrow> exn + (ToolResult \<times> Benchmark)" where
  "handleGetGameState tiles b =
     (if lookup (players b) (currentPlayerIndex b) \<noteq> None
         \<and> list_all (\<lambda>p. lookup tiles (position p) \<noteq> None
                          \<and> list_all (\<lambda>l. lookup tiles l \<noteq> None) (propertyLocs p)) (players b)
      then Inr (Success StateInfo, b) else Inl TypeError)"

definition handleGetPropertyInfo :: "Benchmark \<Rightarrow> int option \<Rightarrow> ToolResult \<times> Benchmark" where
  "handleGetPropertyInfo b loc =
     (case findProperty b loc of
        None \<Rightarrow> (Failure (Msg ''Property not found''), b)
      | Some k \<Rightarrow> (Success (PropertyInfo (properties b ! k)), b))"

definition executeToolCall ::
  "nat \<Rightarrow> tile list \<Rightarrow> (nat \<Rightarrow> int \<times> int) \<Rightarrow> Benchmark \<Rightarrow> nat \<Rightarrow> Command
     \<Rightarrow> exn + (ToolResult \<times> Benchmark)" where
  "executeToolCall fuel tiles rng b pix cmd =
     (case cmd of
        RollDice \<Rightarrow> handleRollDice fuel tiles rng b pix
      | BuyProperty confirm \<Rightarrow> handleBuyProperty tiles b pix confirm
      | AuctionBid a \<Rightarrow> Inr (Success (Bid a), b)
      | PassAuction \<Rightarrow> Inr (Success Passed, b)
      | BuildHouse loc \<Rightarrow> Inr (handleBuildHouse b pix loc)
      | BuildHotel loc \<Rightarrow> Inr (handleBuildHotel b pix loc)
      | MortgageProperty loc \<Rightarrow> Inr (handleMortgageProperty b pix loc)
      | UnmortgageProperty loc \<Rightarrow> Inr (handleUnmortgageProperty b pix loc)
      | SellHouse loc \<Rightarrow> Inr (handleSellHouse b pix loc)
      | SellHotel loc \<Rightarrow> Inr (handleSellHotel b pix loc)
      | PayJailFine \<Rightarrow> Inr (handlePayJailFine b pix)
      | UseJailCard \<Rightarrow> Inr (handleUseJailCard b pix)
      | TradeProperty \<Rightarrow> Inr (Success TradePending, b)
      | RespondToTrade a \<Rightarrow> Inr (Success (Accepted a), b)
      | GetGameState \<Rightarrow> handleGetGameState tiles b
      | GetPropertyInfo loc \<Rightarrow> Inr (handleGetPropertyInfo b loc)
      | EndTurn \<Rightarrow> Inr (Success TurnEnded, b)
      | UnknownTool fn \<Rightarrow> Inr (Failure (Msg ''Unknown tool''), b))"

definition resultTurnEnded :: "ToolResult \<Rightarrow> bool" where
  "resultTurnEnded r =
     (case r of
        Success (RolledToJail roll) \<Rightarrow> True
      | Success TurnEnded \<Rightarrow> True
      | _ \<Rightarrow> False)"

text \<open>
  The loop \<open>for (const call of toolCalls)\<close> of \<open>playTurn\<close>; the flag returned is
  \<open>turnEnded\<close>.
\<close>

primrec runToolCalls ::
  "Command list \<Rightarrow> nat \<Rightarrow> tile list \<Rightarrow> (nat \<Rightarrow> int \<times> int) \<Rightarrow> Benchmark \<Rightarrow> nat
     \<Rightarrow> exn + (bool \<times> Benchmark)" where
  "runToolCalls [] fuel tiles rng b pix = Inr (False, b)"
| "runToolCalls (c # cs) fuel tiles rng b pix =
     bindE (executeToolCall fuel tiles rng b pix c)
       (\<lambda>rb. if c = EndTurn \<or> resultTurnEnded (fst rb) \<or> bankrupt (players (snd rb) ! pix)
              then Inr (True, snd rb)
              else runToolCalls cs fuel tiles rng (snd rb) pix)"

text \<open>
  The decision loop \<open>while (!turnEnded && !player.bankrupt)\<close> of \<open>playTurn\<close>. The decision
  provider (\<open>agent.takeTurn\<close>, a remote model) is the sequence \<open>decide\<close> of tool-call lists,
  read at the agent's \<open>turnInteractionCount\<close>, which \<open>takeTurn\<close> increments. \<open>emptyCount\<close>
  is \<open>emptyResponseCount\<close>; the first argument bounds the number of passes.
\<close>

primrec decisionLoop ::
  "nat \<Rightarrow> nat \<Rightarrow> tile list \<Rightarrow> (nat \<Rightarrow> int \<times> int) \<Rightarrow> (int \<Rightarrow> Command list) \<Rightarrow> Benchmark \<Rightarrow> nat \<Rightarrow> int
     \<Rightarrow> exn + Benchmark" where
  "decisionLoop 0 fuel tiles rng decide b pix emptyCount = Inl OutOfFuel"
| "decisionLoop (Suc n) fuel tiles rng decide b pix emptyCount =
     (if bankrupt (players b ! pix) then Inr b
      else
        let toolCalls = decide (turnInteractionCount (agents b ! pix));
            b1 = updAgent pix (\<lambda>a. a\<lparr>turnInteractionCount := turnInteractionCount a + 1\<rparr>) b
        in if toolCalls = [] then
             (if emptyCount + 1 \<ge> 3 \<or> turnInteractionCount (agents b1 ! pix) > 20 then Inr b1
              else decisionLoop n fuel tiles rng decide b1 pix (emptyCount + 1))
           else
             bindE (runToolCalls toolCalls fuel tiles rng b1 pix)
               (\<lambda>eb. if fst eb \<or> turnInteractionCount (agents (snd eb) ! pix) > 20 then Inr (snd eb)
                      else decisionLoop n fuel tiles rng decide (snd eb) pix 0))"

text \<open>
  \<open>playTurn\<close>. The player and the agent are those at \<open>currentPlayerIndex\<close>; \<open>fuel\<close> bounds
  both the nesting of landings and the passes of the decision loop.
\<close>

definition playTurn ::
  "nat \<Rightarrow> tile list \<Rightarrow> (nat \<Rightarrow> int \<times> int) \<Rightarrow> (int \<Rightarrow> Command list) \<Rightarrow> Benchmark \<Rightarrow> exn + Benchmark" where
  "playTurn fuel tiles rng decide b =
     (let b1 = b\<lparr>turn := turn b + 1\<rparr> in
      if lookup (players b1) (currentPlayerIndex b1) = None
         \<or> lookup (agents b1) (currentPlayerIndex b1) = None then Inl TypeError
      else
        let pix = nat (currentPlayerIndex b1);
            b2 = (updAgent pix resetForNewTurn b1)\<lparr>doublesCount := 0\<rparr>
        in if inJail (players b2 ! pix) then
             bindE (handleJail fuel tiles rng b2 pix)
               (\<lambda>b3. if inJail (players b3 ! pix) \<or> bankrupt (players b3 ! pix) then nextPlayer b3
                      else bindE (decisionLoop fuel fuel tiles rng decide b3 pix 0) nextPlayer)
           else bindE (decisionLoop fuel fuel tiles rng decide b2 pix 0) nextPlayer)"


section \<open>Game set-up and a small board\<close>

text \<open>The player object of \<open>generatePlayers\<close> (models.ts).\<close>

definition newPlayer :: "string \<Rightarrow> string \<Rightarrow> Player" where
  "newPlayer ident nm = \<lparr>pid = ident, name = nm, position = 0, money = 1500, propertyLocs = [],
     jailFreeCards = 0, inJail = False, jailTurns = 0, bankrupt = False\<rparr>"

definition newAgent :: Agent where
  "newAgent = \<lparr>hasRolledThisTurn = False, doublesCountA = 0, turnInteractionCount = 0\<rparr>"

text \<open>
  The state built by the constructors of \<open>MonopolyMultiAgent\<close> and \<open>MonopolyBenchmark\<close>: one
  unowned property per tile with a cost, bank inventory 32 and 12. The shuffled decks are
  given.
\<close>

definition newGame :: "Player list \<Rightarrow> tile list \<Rightarrow> Card list \<Rightarrow> Card list \<Rightarrow> Benchmark" where
  "newGame ps tiles chance communityChest =
     \<lparr>players = ps, currentPlayerIndex = 0,
      properties = map (\<lambda>t. \<lparr>tile = t, owner = None, houses = 0, hotels = 0, mortgaged = False\<rparr>)
                     (filter (\<lambda>t. cost (attributes t) \<noteq> None) tiles),
      chanceCards = chance, communityChestCards = communityChest,
      housesBank = 32, hotelsBank = 12, turn = 0, gameOver = False, winner = None,
      agents = map (\<lambda>p. newAgent) ps, doublesCount = 0, currentDiceRoll = None,
      lastCardDrawn = None, diceUsed = 0\<rparr>"

text \<open>
  The board of setup/board.ts is not among the sources; the engine takes it as the
  parameter \<open>tiles\<close>. For evaluating the engine on concrete inputs, \<open>demoTiles\<close> is a board
  of 40 tiles with the brown group at locations 1 and 3 (the agent's prompt names that
  group) and otherwise tiles without a cost.
\<close>

definition brownTile :: "int \<Rightarrow> tile" where
  "brownTile l = \<lparr>location = l, tileType = ''colored'',
     attributes = \<lparr>color = Some ''brown'', cost = Some 60, rent_amount = Some 2,
       houseCost = Some 50, rent1House = Some 10, rent2Houses = Some 30, rent3Houses = Some 90,
       rent4Houses = Some 160, rentHotel = Some 250\<rparr>\<rparr>"

definition plainTile :: "int \<Rightarrow> string \<Rightarrow> tile" where
  "plainTile l ty = \<lparr>location = l, tileType = ty,
     attributes = \<lparr>color = None, cost = None, rent_amount = None, houseCost = None,
       rent1House = None, rent2Houses = None, rent3Houses = None, rent4Houses = None,
       rentHotel = None\<rparr>\<rparr>"

definition demoTile :: "int \<Rightarrow> tile" where
  "demoTile l =
     (if l = 1 \<or> l = 3 then brownTile l
      else plainTile l (if l = 0 then ''go'' else if l = 10 then ''visiting_jail''
                        else if l = 30 then ''go_to_jail'' else ''free_parking''))"

definition demoTiles :: "tile list" where
  "demoTiles = map (\<lambda>i. demoTile (int i)) [0..<40]"

definition demoGame :: Benchmark where
  "demoGame = newGame [newPlayer ''p1'' ''A'', newPlayer ''p2'' ''B''] demoTiles [] []"

text \<open>
  \<open>demoAtBrown\<close>: the new game with the first player standing on location 1;
  \<open>demoExactBid\<close>: the same with 48 in the first player's hands and 30 in the second's.
  \<open>demoOwned\<close>: the first player has bought both brown properties (60 each) and stands on
  location 3. \<open>demoBuilt\<close>: that player has then built eight houses, alternating between
  the two properties, by eight build_house commands.
\<close>

definition demoAtBrown :: Benchmark where
  "demoAtBrown = updPlayer 0 (\<lambda>p. p\<lparr>position := 1\<rparr>) demoGame"

definition demoExactBid :: Benchmark where
  "demoExactBid = updPlayer 1 (\<lambda>p. p\<lparr>money := 30\<rparr>) (updPlayer 0 (\<lambda>p. p\<lparr>money := 48\<rparr>) demoAtBrown)"

definition demoOwned :: Benchmark where
  "demoOwned = demoGame\<lparr>
     players := [(newPlayer ''p1'' ''A'')\<lparr>position := 3, money := 1380, propertyLocs := [1, 3]\<rparr>,
                 newPlayer ''p2'' ''B''],
     properties := map (\<lambda>p. p\<lparr>owner := Some ''p1''\<rparr>) (properties demoGame)\<rparr>"

definition buildHouses :: "int list \<Rightarrow> Benchmark \<Rightarrow> Benchmark" where
  "buildHouses locs b = fold (\<lambda>l s. snd (handleBuildHouse s 0 (Some l))) locs b"

definition demoBuilt :: Benchmark where
  "demoBuilt = buildHouses [1, 3, 1, 3, 1, 3, 1, 3] demoOwned"

text \<open>
  The community chest card 9 of cards.ts ("It is your birthday. Collect $10 from every
  player."), and a game of four players, the second with 4 in hand, the third bankrupt.
\<close>

definition birthdayCard :: Card where
  "birthdayCard = \<lparr>cardId = 9, cardType = ''financial'',
     cardAttrs = Some (noAttributes\<lparr>collectFromPlayers := True, perPlayer := Some 10\<rparr>)\<rparr>"

definition demoParty :: Benchmark where
  "demoParty = newGame
     [newPlayer ''p1'' ''A'', (newPlayer ''p2'' ''B'')\<lparr>money := 4\<rparr>,
      (newPlayer ''p3'' ''C'')\<lparr>money := 0, bankrupt := True\<rparr>, newPlayer ''p4'' ''D'']
     demoTiles [] [birthdayCard]"

text \<open>
  \<open>demoAt35\<close>: the first player stands on location 35. \<open>demoJailed\<close>: the first player is
  in jail with two jail turns behind; \<open>demoJailedPoor\<close>: the same with 30 in hand.
  \<open>demoDice\<close> gives a double three, then 1 and 2, then 2 and 3. \<open>rollThenEnd\<close> is a
  decision provider that answers roll_dice at first and end_turn afterwards.
\<close>

definition demoAt35 :: Benchmark where
  "demoAt35 = updPlayer 0 (\<lambda>p. p\<lparr>position := 35\<rparr>) demoGame"

definition demoJailed :: Benchmark where
  "demoJailed = updPlayer 0 (\<lambda>p. p\<lparr>position := 10, inJail := True, jailTurns := 2\<rparr>) demoGame"

definition demoJailedPoor :: Benchmark where
  "demoJailedPoor = updPlayer 0 (\<lambda>p. p\<lparr>money := 30\<rparr>) demoJailed"

definition demoDice :: "nat \<Rightarrow> int \<times> int" where
  "demoDice n = (if n = 0 then (3, 3) else if n = 1 then (1, 2) else (2, 3))"

definition rollThenEnd :: "int \<Rightarrow> Command list" where
  "rollThenEnd n = (if n = 0 then [RollDice] else [EndTurn])"

section \<open>The even-building law as a predicate on states\<close>

text \<open>
  Two properties are in the same owned colour group when they have the same colour and the
  same owner. \<open>evenHouses\<close>: the house counts of any two such properties differ by at most
  one.
\<close>

definition sameOwnedGroup :: "Property \<Rightarrow> Property \<Rightarrow> bool" where
  "sameOwnedGroup p q =
     (color (attributes (tile p)) \<noteq> None
      \<and> color (attributes (tile p)) = color (attributes (tile q))
      \<and> owner p \<noteq> None \<and> owner p = owner q)"

definition evenHouses :: "Benchmark \<Rightarrow> bool" where
  "evenHouses b =
     list_all (\<lambda>p. list_all (\<lambda>q. sameOwnedGroup p q \<longrightarrow> \<bar>houses p - houses q\<bar> \<le> 1)
                      (properties b)) (properties b)"

section \<open>Basic facts\<close>

lemma updPlayer_sel [simp]:
  "players (updPlayer i f b) = (players b)[i := f (players b ! i)]"
  "properties (updPlayer i f b) = properties b"
  "housesBank (updPlayer i f b) = housesBank b"
  "hotelsBank (updPlayer i f b) = hotelsBank b"
  "chanceCards (updPlayer i f b) = chanceCards b"
  "communityChestCards (updPlayer i f b) = communityChestCards b"
  "currentPlayerIndex (updPlayer i f b) = currentPlayerIndex b"
  "turn (updPlayer i f b) = turn b"
  "gameOver (updPlayer i f b) = gameOver b"
  "winner (updPlayer i f b) = winner b"
  "agents (updPlayer i f b) = agents b"
  "doublesCount (updPlayer i f b) = doublesCount b"
  "currentDiceRoll (updPlayer i f b) = currentDiceRoll b"
  "lastCardDrawn (updPlayer i f b) = lastCardDrawn b"
  "diceUsed (updPlayer i f b) = diceUsed b"
  by (simp_all add: updPlayer_def)

lemma updProperty_sel [simp]:
  "players (updProperty k f b) = players b"
  "properties (updProperty k f b) = (properties b)[k := f (properties b ! k)]"
  "housesBank (updProperty k f b) = housesBank b"
  "hotelsBank (updProperty k f b) = hotelsBank b"
  "chanceCards (updProperty k f b) = chanceCards b"
  "communityChestCards (updProperty k f b) = communityChestCards b"
  "currentPlayerIndex (updProperty k f b) = currentPlayerIndex b"
  "turn (updProperty k f b) = turn b"
  "gameOver (updProperty k f b) = gameOver b"
  "winner (updProperty k f b) = winner b"
  "agents (updProperty k f b) = agents b"
  "doublesCount (updProperty k f b) = doublesCount b"
  "currentDiceRoll (updProperty k f b) = currentDiceRoll b"
  "lastCardDrawn (updProperty k f b) = lastCardDrawn b"
  "diceUsed (updProperty k f b) = diceUsed b"
  by (simp_all add: updProperty_def)


lemma lookup_Some: "lookup xs i = Some x \<Longrightarrow> 0 \<le> i \<and> nat i < length xs \<and> xs ! nat i = x"
  by (auto simp: lookup_def split: if_splits)

text \<open>
  \<open>demoOwned\<close> is what two purchases make of the new game: the first player buys location
  1, is moved to location 3 and buys it.
\<close>

lemma demoOwned_by_purchase:
  "bindE (handleBuyProperty demoTiles demoAtBrown 0 True)
     (\<lambda>rs. handleBuyProperty demoTiles (updPlayer 0 (\<lambda>p. p\<lparr>position := 3\<rparr>) (snd rs)) 0 True)
   = Inr (Success (Bought 60), demoOwned)"
  by code_simp

section \<open>Failures leave the state as it was\<close>

lemma buy_fail: "handleBuyProperty tiles b pix confirm = Inr (Failure r, b') \<Longrightarrow> b' = b"
  by (simp add: handleBuyProperty_def Let_def split: option.splits if_splits)

lemma build_house_fail: "handleBuildHouse b pix loc = (Failure r, b') \<Longrightarrow> b' = b"
  by (simp add: handleBuildHouse_def Let_def split: option.splits if_splits)

lemma build_hotel_fail: "handleBuildHotel b pix loc = (Failure r, b') \<Longrightarrow> b' = b"
  by (simp add: handleBuildHotel_def Let_def split: option.splits if_splits)

lemma mortgage_fail: "handleMortgageProperty b pix loc = (Failure r, b') \<Longrightarrow> b' = b"
  by (simp add: handleMortgageProperty_def Let_def split: option.splits if_splits)

lemma unmortgage_fail: "handleUnmortgageProperty b pix loc = (Failure r, b') \<Longrightarrow> b' = b"
  by (simp add: handleUnmortgageProperty_def Let_def split: option.splits if_splits)

lemma sell_house_fail: "handleSellHouse b pix loc = (Failure r, b') \<Longrightarrow> b' = b"
  by (simp add: handleSellHouse_def Let_def split: option.splits if_splits)

lemma sell_hotel_fail: "handleSellHotel b pix loc = (Failure r, b') \<Longrightarrow> b' = b"
  by (simp add: handleSellHotel_def Let_def split: option.splits if_splits)

lemma pay_fine_fail: "handlePayJailFine b pix = (Failure r, b') \<Longrightarrow> b' = b"
  by (simp add: handlePayJailFine_def Let_def split: option.splits if_splits)

lemma use_card_fail: "handleUseJailCard b pix = (Failure r, b') \<Longrightarrow> b' = b"
  by (simp add: handleUseJailCard_def Let_def split: option.splits if_splits)

text \<open>
  C1. Whenever one of the nine transaction handlers (buy_property, build_house,
  build_hotel, mortgage_property, unmortgage_property, sell_house, sell_hotel,
  pay_jail_fine, use_jail_card) returns a result with \<open>success = false\<close>, the whole engine
  state after the call (players, properties, bank inventory, decks, turn data, agents) is
  the state before it.
\<close>

theorem failure_never_mutates:
  "(\<forall>r b'. handleBuyProperty tiles b pix confirm = Inr (Failure r, b') \<longrightarrow> b' = b)
   \<and> (\<forall>r b'. handleBuildHouse b pix loc = (Failure r, b') \<longrightarrow> b' = b)
   \<and> (\<forall>r b'. handleBuildHotel b pix loc = (Failure r, b') \<longrightarrow> b' = b)
   \<and> (\<forall>r b'. handleMortgageProperty b pix loc = (Failure r, b') \<longrightarrow> b' = b)
   \<and> (\<forall>r b'. handleUnmortgageProperty b pix loc = (Failure r, b') \<longrightarrow> b' = b)
   \<and> (\<forall>r b'. handleSellHouse b pix loc = (Failure r, b') \<longrightarrow> b' = b)
   \<and> (\<forall>r b'. handleSellHotel b pix loc = (Failure r, b') \<longrightarrow> b' = b)
   \<and> (\<forall>r b'. handlePayJailFine b pix = (Failure r, b') \<longrightarrow> b' = b)
   \<and> (\<forall>r b'. handleUseJailCard b pix = (Failure r, b') \<longrightarrow> b' = b)"
  by (intro conjI allI impI;
      erule buy_fail build_house_fail build_hotel_fail mortgage_fail unmortgage_fail
        sell_house_fail sell_hotel_fail pay_fine_fail use_card_fail)

text \<open>
  In the new game on the demo board, player 0 stands on Go, owns nothing and is not in
  jail: each of the nine commands fails, and the state stays \<open>demoGame\<close>.
\<close>

theorem failure_never_mutates_witness:
  "handleBuyProperty demoTiles demoGame 0 True
     = Inr (Failure (Msg ''Not a purchasable property''), demoGame)
   \<and> handleBuildHouse demoGame 0 (Some 1) = (Failure (Msg ''Not owner''), demoGame)
   \<and> handleBuildHotel demoGame 0 (Some 1) = (Failure (Msg ''Not owner''), demoGame)
   \<and> handleMortgageProperty demoGame 0 (Some 1) = (Failure (Msg ''Not owner''), demoGame)
   \<and> handleUnmortgageProperty demoGame 0 (Some 1) = (Failure (Msg ''Not owner''), demoGame)
   \<and> handleSellHouse demoGame 0 (Some 1) = (Failure (Msg ''Not owner''), demoGame)
   \<and> handleSellHotel demoGame 0 (Some 1) = (Failure (Msg ''Not owner''), demoGame)
   \<and> handlePayJailFine demoGame 0 = (Failure (Msg ''Not in jail''), demoGame)
   \<and> handleUseJailCard demoGame 0 = (Failure (Msg ''Not in jail''), demoGame)"
proof -
  note T = failure_never_mutates [of demoTiles demoGame 0 True "Some 1"]
  have 1: "(case handleBuyProperty demoTiles demoGame 0 True of
              Inl e \<Rightarrow> False | Inr rb \<Rightarrow> fst rb = Failure (Msg ''Not a purchasable property''))"
    by code_simp
  have 2: "fst (handleBuildHouse demoGame 0 (Some 1)) = Failure (Msg ''Not owner'')"
    by code_simp
  have 3: "fst (handleBuildHotel demoGame 0 (Some 1)) = Failure (Msg ''Not owner'')"
    by code_simp
  have 4: "fst (handleMortgageProperty demoGame 0 (Some 1)) = Failure (Msg ''Not owner'')"
    by code_simp
  have 5: "fst (handleUnmortgageProperty demoGame 0 (Some 1)) = Failure (Msg ''Not owner'')"
    by code_simp
  have 6: "fst (handleSellHouse demoGame 0 (Some 1)) = Failure (Msg ''Not owner'')"
    by code_simp
  have 7: "fst (handleSellHotel demoGame 0 (Some 1)) = Failure (Msg ''Not owner'')"
    by code_simp
  have 8: "fst (handlePayJailFine demoGame 0) = Failure (Msg ''Not in jail'')"
    by code_simp
  have 9: "fst (handleUseJailCard demoGame 0) = Failure (Msg ''Not in jail'')"
    by code_simp
  have a: "handleBuyProperty demoTiles demoGame 0 True
             = Inr (Failure (Msg ''Not a purchasable property''), demoGame)"
    using 1 T by (cases "handleBuyProperty demoTiles demoGame 0 True") (auto split: prod.splits)
  have b: "\<And>h r. fst h = Failure r \<Longrightarrow> (\<forall>r b'. h = (Failure r, b') \<longrightarrow> b' = demoGame)
             \<Longrightarrow> h = (Failure r, demoGame)"
    by (metis prod.collapse)
  show ?thesis
    using a b [OF 2] b [OF 3] b [OF 4] b [OF 5] b [OF 6] b [OF 7] b [OF 8] b [OF 9] T
    by blast
qed

section \<open>Bankruptcy settlement: creditor and bank\<close>

lemma bankruptcy_creditor_debtor:
  assumes "d < length (players b)" "c < length (players b)" "c \<noteq> d"
  shows "players (handleBankruptcy b d (Some c)) ! d =
     (players b ! d)\<lparr>bankrupt := True, money := 0, propertyLocs := [], jailFreeCards := 0\<rparr>"
  using assms by (simp add: handleBankruptcy_def Let_def)

lemma bankruptcy_creditor_creditor:
  assumes "d < length (players b)" "c < length (players b)" "c \<noteq> d"
  shows "players (handleBankruptcy b d (Some c)) ! c =
     (players b ! c)\<lparr>money := money (players b ! c) + money (players b ! d),
                        propertyLocs := propertyLocs (players b ! c) @
                           map (\<lambda>p. location (tile p))
                             (filter (\<lambda>p. owner p = Some (pid (players b ! d))) (properties b)),
                        jailFreeCards := jailFreeCards (players b ! c) + jailFreeCards (players b ! d)\<rparr>"
  using assms by (simp add: handleBankruptcy_def Let_def)

lemma bankruptcy_creditor_properties:
  assumes "d < length (players b)" "c < length (players b)" "c \<noteq> d"
  shows "properties (handleBankruptcy b d (Some c)) =
     map (\<lambda>p. if owner p = Some (pid (players b ! d)) then p\<lparr>owner := Some (pid (players b ! c))\<rparr> else p)
       (properties b)"
  using assms by (simp add: handleBankruptcy_def Let_def)

text \<open>
  C7. Settlement of the debtor \<open>d\<close> with the creditor \<open>c\<close>, another player: the debtor is
  marked bankrupt and ends with money 0, an empty property list and no jail tokens; the
  creditor's money grows by the debtor's money, the creditor's jail tokens by the debtor's,
  the locations of the debtor's properties are appended to the creditor's list, and every
  property the debtor owned now has the creditor as owner (nothing else of a property
  changes, and no other property changes).
\<close>

theorem bankruptcy_to_creditor:
  assumes "d < length (players b)" and "c < length (players b)" and "c \<noteq> d"
  defines "b' \<equiv> handleBankruptcy b d (Some c)"
  shows "bankrupt (players b' ! d)
    \<and> money (players b' ! d) = 0
    \<and> propertyLocs (players b' ! d) = []
    \<and> jailFreeCards (players b' ! d) = 0
    \<and> money (players b' ! c) = money (players b ! c) + money (players b ! d)
    \<and> jailFreeCards (players b' ! c) = jailFreeCards (players b ! c) + jailFreeCards (players b ! d)
    \<and> propertyLocs (players b' ! c) = propertyLocs (players b ! c) @
         map (\<lambda>p. location (tile p))
           (filter (\<lambda>p. owner p = Some (pid (players b ! d))) (properties b))
    \<and> length (properties b') = length (properties b)
    \<and> (\<forall>k < length (properties b).
          properties b' ! k =
            (if owner (properties b ! k) = Some (pid (players b ! d))
             then (properties b ! k)\<lparr>owner := Some (pid (players b ! c))\<rparr>
             else properties b ! k))"
proof -
  note D = bankruptcy_creditor_debtor [OF assms(1-3)]
  note C = bankruptcy_creditor_creditor [OF assms(1-3)]
  note P = bankruptcy_creditor_properties [OF assms(1-3)]
  show ?thesis
    unfolding b'_def D C P by simp
qed

lemma demoOwned_len: "0 < length (players demoOwned)" "1 < length (players demoOwned)"
  by code_simp+

text \<open>
  The first player of \<open>demoOwned\<close> (1380, both brown properties) goes bankrupt towards the
  second (1500).
\<close>

theorem bankruptcy_to_creditor_witness:
  "bankrupt (players (handleBankruptcy demoOwned 0 (Some 1)) ! 0)
   \<and> money (players (handleBankruptcy demoOwned 0 (Some 1)) ! 0) = 0
   \<and> propertyLocs (players (handleBankruptcy demoOwned 0 (Some 1)) ! 0) = []
   \<and> jailFreeCards (players (handleBankruptcy demoOwned 0 (Some 1)) ! 0) = 0
   \<and> money (players (handleBankruptcy demoOwned 0 (Some 1)) ! 1) = 2880
   \<and> propertyLocs (players (handleBankruptcy demoOwned 0 (Some 1)) ! 1) = [1, 3]
   \<and> properties (handleBankruptcy demoOwned 0 (Some 1)) ! 0
       = (properties demoOwned ! 0)\<lparr>owner := Some ''p2''\<rparr>"
proof -
  have ne: "(1::nat) \<noteq> 0" by simp
  note T = bankruptcy_to_creditor [OF demoOwned_len ne]
  have v: "money (players demoOwned ! 1) + money (players demoOwned ! 0) = 2880"
    "propertyLocs (players demoOwned ! 1) @
       map (\<lambda>p. location (tile p))
         (filter (\<lambda>p. owner p = Some (pid (players demoOwned ! 0))) (properties demoOwned)) = [1, 3]"
    "0 < length (properties demoOwned)"
    "owner (properties demoOwned ! 0) = Some (pid (players demoOwned ! 0))"
    "pid (players demoOwned ! 1) = ''p2''"
    by code_simp+
  from T v show ?thesis by simp
qed

lemma bankruptcy_bank_players:
  assumes "d < length (players b)"
  shows "players (handleBankruptcy b d None) =
     (players b)[d := (players b ! d)\<lparr>bankrupt := True, money := 0, propertyLocs := [], jailFreeCards := 0\<rparr>]"
  using assms by (simp add: handleBankruptcy_def Let_def)

lemma bankruptcy_bank_properties:
  assumes "d < length (players b)"
  shows "properties (handleBankruptcy b d None) =
     map (\<lambda>p. if owner p = Some (pid (players b ! d))
               then p\<lparr>hotels := 0, houses := 0, owner := None, mortgaged := False\<rparr> else p)
       (properties b)"
  using assms by (simp add: handleBankruptcy_def Let_def)

lemma bankruptcy_bank_rest:
  "housesBank (handleBankruptcy b d None) = housesBank b"
  "hotelsBank (handleBankruptcy b d None) = hotelsBank b"
  by (simp_all add: handleBankruptcy_def Let_def)

text \<open>
  C8. Settlement of the debtor \<open>d\<close> with the bank: every property the debtor owned becomes
  unowned, unmortgaged and free of buildings, every other property is as before; the bank's
  house and hotel counters are as before (the cleared buildings are not added to them);
  every other player is as before, and of the debtor only the bankrupt flag, the money, the
  property list and the jail tokens change.
\<close>

theorem bankruptcy_to_bank:
  assumes "d < length (players b)"
  defines "b' \<equiv> handleBankruptcy b d None"
  shows "length (properties b') = length (properties b)
    \<and> (\<forall>k < length (properties b).
          properties b' ! k =
            (if owner (properties b ! k) = Some (pid (players b ! d))
             then (properties b ! k)\<lparr>hotels := 0, houses := 0, owner := None, mortgaged := False\<rparr>
             else properties b ! k))
    \<and> housesBank b' = housesBank b \<and> hotelsBank b' = hotelsBank b
    \<and> length (players b') = length (players b)
    \<and> (\<forall>j < length (players b). j \<noteq> d \<longrightarrow> players b' ! j = players b ! j)
    \<and> players b' ! d = (players b ! d)\<lparr>bankrupt := True, money := 0, propertyLocs := [], jailFreeCards := 0\<rparr>"
  unfolding b'_def bankruptcy_bank_players [OF assms(1)] bankruptcy_bank_properties [OF assms(1)]
    bankruptcy_bank_rest
  using assms(1) by simp

text \<open>
  The first player of \<open>demoBuilt\<close> holds four houses on each brown property, so the bank
  holds 24 houses; after the settlement with the bank the houses are gone from the property
  and the bank still holds 24.
\<close>

theorem bankruptcy_to_bank_witness:
  "properties (handleBankruptcy demoBuilt 0 None) ! 0
       = (properties demoBuilt ! 0)\<lparr>hotels := 0, houses := 0, owner := None, mortgaged := False\<rparr>
   \<and> houses (properties demoBuilt ! 0) = 4
   \<and> housesBank demoBuilt = 24
   \<and> housesBank (handleBankruptcy demoBuilt 0 None) = 24
   \<and> hotelsBank (handleBankruptcy demoBuilt 0 None) = hotelsBank demoBuilt
   \<and> players (handleBankruptcy demoBuilt 0 None) ! 1 = players demoBuilt ! 1
   \<and> bankrupt (players (handleBankruptcy demoBuilt 0 None) ! 0)"
proof -
  have l: "0 < length (players demoBuilt)" by code_simp
  note T = bankruptcy_to_bank [OF l]
  have v: "0 < length (properties demoBuilt)"
    "owner (properties demoBuilt ! 0) = Some (pid (players demoBuilt ! 0))"
    "houses (properties demoBuilt ! 0) = 4" "housesBank demoBuilt = 24"
    "1 < length (players demoBuilt)"
    by code_simp+
  from T v show ?thesis by simp
qed

section \<open>Finding a property; least and greatest house counts\<close>

lemma findIndex_Some:
  "findIndex P xs = Some k \<Longrightarrow> k < length xs \<and> P (xs ! k) \<and> (\<forall>j<k. \<not> P (xs ! j))"
proof (induction xs arbitrary: k)
  case Nil
  then show ?case by simp
next
  case (Cons x xs)
  show ?case
  proof (cases "P x")
    case True
    with Cons.prems show ?thesis by simp
  next
    case False
    with Cons.prems obtain k' where k': "findIndex P xs = Some k'" "k = Suc k'"
      by auto
    from Cons.IH [OF k'(1)] False k'(2) show ?thesis
      by (auto simp: less_Suc_eq_0_disj)
  qed
qed

lemma find_filter_first:
  "findIndex P xs = Some k \<Longrightarrow> Q (xs ! k) \<Longrightarrow> find P (filter Q xs) = Some (xs ! k)"
proof (induction xs arbitrary: k)
  case Nil
  then show ?case by simp
next
  case (Cons x xs)
  show ?case
  proof (cases "P x")
    case True
    with Cons.prems show ?thesis by simp
  next
    case False
    with Cons.prems obtain k' where k': "findIndex P xs = Some k'" "k = Suc k'"
      by auto
    with Cons.prems(2) have "Q (xs ! k')" by simp
    from Cons.IH [OF k'(1) this] False k'(2) show ?thesis by simp
  qed
qed

lemma minOf_le: "x \<in> set (h # hs) \<Longrightarrow> minOf h hs \<le> x"
  unfolding minOf_def Min.set_eq_fold [symmetric] by (rule Min_le) simp_all

lemma maxOf_ge: "x \<in> set (h # hs) \<Longrightarrow> x \<le> maxOf h hs"
  unfolding maxOf_def Max.set_eq_fold [symmetric] by (rule Max_ge) simp_all

lemma findProperty_Some:
  "findProperty b loc = Some k \<Longrightarrow>
     k < length (properties b) \<and> loc = Some (location (tile (properties b ! k)))
     \<and> findIndex (\<lambda>p. location (tile p) = location (tile (properties b ! k))) (properties b) = Some k"
proof -
  assume k: "findProperty b loc = Some k"
  from findIndex_Some [OF k [unfolded findProperty_def]]
  have 1: "k < length (properties b)" and 2: "Some (location (tile (properties b ! k))) = loc"
    by simp_all
  have e: "(\<lambda>p. Some (location (tile p)) = loc) = (\<lambda>p. location (tile p) = location (tile (properties b ! k)))"
    using 2 by auto
  have "findIndex (\<lambda>p. location (tile p) = location (tile (properties b ! k))) (properties b) = Some k"
    using k unfolding findProperty_def e .
  with 1 2 show ?thesis by simp
qed

lemma current_is_property:
  assumes k: "findProperty b loc = Some k"
    and own: "owner (properties b ! k) = Some ident"
  shows "find (\<lambda>p. location (tile p) = location (tile (properties b ! k)))
           (ownedGroup b ident (tile (properties b ! k))) = Some (properties b ! k)"
  unfolding ownedGroup_def
  by (rule find_filter_first) (use findProperty_Some [OF k] own in simp_all)

section \<open>The even-building law under build and sell\<close>

lemma canBuildEvenly_least:
  assumes can: "canBuildEvenly b ident (tile (properties b ! k))"
    and k: "findProperty b loc = Some k"
    and own: "owner (properties b ! k) = Some ident"
    and q: "q \<in> set (properties b)"
      "color (attributes (tile q)) = color (attributes (tile (properties b ! k)))"
      "owner q = Some ident"
  shows "houses (properties b ! k) \<le> houses q"
proof -
  let ?P = "properties b ! k"
  let ?grp = "ownedGroup b ident (tile ?P)"
  note cur = current_is_property [OF k own]
  have qin: "q \<in> set ?grp" using q by (simp add: ownedGroup_def)
  then obtain h hs where hs: "map houses ?grp = h # hs"
    by (cases "map houses ?grp") auto
  have "houses ?P = minOf h hs"
    using can unfolding canBuildEvenly_def Let_def cur hs by (simp split: if_splits)
  moreover have "houses q \<in> set (map houses ?grp)" using qin by simp
  ultimately show ?thesis using minOf_le [of "houses q" h hs] hs by simp
qed

lemma canSellEvenly_greatest:
  assumes can: "canSellEvenly b ident (tile (properties b ! k))"
    and k: "findProperty b loc = Some k"
    and own: "owner (properties b ! k) = Some ident"
    and q: "q \<in> set (properties b)"
      "color (attributes (tile q)) = color (attributes (tile (properties b ! k)))"
      "owner q = Some ident"
  shows "houses q \<le> houses (properties b ! k)"
proof -
  let ?P = "properties b ! k"
  let ?grp = "ownedGroup b ident (tile ?P)"
  note cur = current_is_property [OF k own]
  have qin: "q \<in> set ?grp" using q by (simp add: ownedGroup_def)
  then obtain h hs where hs: "map houses ?grp = h # hs"
    by (cases "map houses ?grp") auto
  have "houses ?P = maxOf h hs"
    using can unfolding canSellEvenly_def Let_def cur hs by (simp split: if_splits)
  moreover have "houses q \<in> set (map houses ?grp)" using qin by simp
  ultimately show ?thesis using maxOf_ge [of "houses q" h hs] hs by simp
qed

text \<open>Raising or lowering one house count by one, at the least or the greatest of its group.\<close>

lemma evenHouses_update:
  assumes inv: "evenHouses b"
    and k: "k < length (properties b)"
    and ps: "properties b' = (properties b)[k := (properties b ! k)\<lparr>houses := h'\<rparr>]"
    and near: "\<And>q. q \<in> set (properties b) \<Longrightarrow> sameOwnedGroup (properties b ! k) q
                 \<Longrightarrow> \<bar>h' - houses q\<bar> \<le> 1"
  shows "evenHouses b'"
proof -
  let ?P = "properties b ! k"
  let ?P' = "?P\<lparr>houses := h'\<rparr>"
  have grp: "\<And>q. sameOwnedGroup ?P' q = sameOwnedGroup ?P q"
    "\<And>q. sameOwnedGroup q ?P' = sameOwnedGroup q ?P"
    by (simp_all add: sameOwnedGroup_def)
  have sym: "\<And>p q. sameOwnedGroup p q \<Longrightarrow> sameOwnedGroup q p"
    unfolding sameOwnedGroup_def by metis
  have old: "\<And>p q. p \<in> set (properties b) \<Longrightarrow> q \<in> set (properties b) \<Longrightarrow> sameOwnedGroup p q
               \<Longrightarrow> \<bar>houses p - houses q\<bar> \<le> 1"
    using inv by (auto simp: evenHouses_def list_all_iff)
  have mem: "\<And>p. p \<in> set (properties b') \<Longrightarrow> p = ?P' \<or> p \<in> set (properties b)"
    unfolding ps using set_update_subset_insert [of "properties b" k ?P'] by auto
  have "\<bar>houses p - houses q\<bar> \<le> 1"
    if p: "p \<in> set (properties b')" and q: "q \<in> set (properties b')" and g: "sameOwnedGroup p q"
    for p q
  proof -
    consider "p = ?P'" "q = ?P'" | "p = ?P'" "q \<in> set (properties b)"
      | "p \<in> set (properties b)" "q = ?P'" | "p \<in> set (properties b)" "q \<in> set (properties b)"
      using mem [OF p] mem [OF q] by blast
    then show ?thesis
    proof cases
      case 1
      then show ?thesis by simp
    next
      case 2
      with g grp(1) have "sameOwnedGroup ?P q" by simp
      from near [OF 2(2) this] 2(1) show ?thesis by simp
    next
      case 3
      with g grp(2) have "sameOwnedGroup p ?P" by simp
      then have "sameOwnedGroup ?P p" by (rule sym)
      from near [OF 3(1) this] 3(2) show ?thesis by simp
    next
      case 4
      then show ?thesis using g by (intro old)
    qed
  qed
  then show ?thesis by (auto simp: evenHouses_def list_all_iff)
qed


lemma build_house_props:
  "handleBuildHouse b pix loc = (Success pl, b') \<Longrightarrow>
     \<exists>k. findProperty b loc = Some k
       \<and> owner (properties b ! k) = Some (pid (players b ! pix))
       \<and> canBuildEvenly b (pid (players b ! pix)) (tile (properties b ! k))
       \<and> properties b' = (properties b)[k := (properties b ! k)\<lparr>houses := houses (properties b ! k) + 1\<rparr>]"
  by (simp add: handleBuildHouse_def Let_def split: option.splits if_splits) auto

lemma sell_house_props:
  "handleSellHouse b pix loc = (Success pl, b') \<Longrightarrow>
     \<exists>k. findProperty b loc = Some k
       \<and> owner (properties b ! k) = Some (pid (players b ! pix))
       \<and> canSellEvenly b (pid (players b ! pix)) (tile (properties b ! k))
       \<and> properties b' = (properties b)[k := (properties b ! k)\<lparr>houses := houses (properties b ! k) - 1\<rparr>]"
  by (simp add: handleSellHouse_def Let_def split: option.splits if_splits) auto

lemma build_hotel_props:
  "handleBuildHotel b pix loc = (Success pl, b') \<Longrightarrow>
     \<exists>k. findProperty b loc = Some k \<and> houses (properties b ! k) = 4
       \<and> properties b' = (properties b)[k := (properties b ! k)\<lparr>houses := 0, hotels := 1\<rparr>]"
  by (simp add: handleBuildHotel_def Let_def split: option.splits if_splits) auto

lemma sell_hotel_props:
  "handleSellHotel b pix loc = (Success pl, b') \<Longrightarrow>
     \<exists>k. findProperty b loc = Some k \<and> hotels (properties b ! k) \<noteq> 0
       \<and> properties b' = (properties b)[k := (properties b ! k)\<lparr>hotels := 0, houses := 4\<rparr>]"
  by (simp add: handleSellHotel_def Let_def split: option.splits if_splits) auto

lemma build_house_even:
  assumes inv: "evenHouses b"
  shows "evenHouses (snd (handleBuildHouse b pix loc))"
proof (cases "handleBuildHouse b pix loc")
  case (Pair r b')
  show ?thesis
  proof (cases r)
    case (Failure x)
    with Pair build_house_fail have "b' = b" by blast
    with Pair inv show ?thesis by simp
  next
    case (Success pl)
    with Pair build_house_props obtain k where k: "findProperty b loc = Some k"
      and own: "owner (properties b ! k) = Some (pid (players b ! pix))"
      and can: "canBuildEvenly b (pid (players b ! pix)) (tile (properties b ! k))"
      and ps: "properties b' = (properties b)[k := (properties b ! k)\<lparr>houses := houses (properties b ! k) + 1\<rparr>]"
      by blast
    let ?P = "properties b ! k"
    have kl: "k < length (properties b)" using findProperty_Some [OF k] by simp
    have "evenHouses b'"
    proof (rule evenHouses_update [OF inv kl ps])
      fix q assume q: "q \<in> set (properties b)" and g: "sameOwnedGroup ?P q"
      from g own have c: "color (attributes (tile q)) = color (attributes (tile ?P))"
        and o: "owner q = Some (pid (players b ! pix))"
        by (simp_all add: sameOwnedGroup_def)
      have le: "houses ?P \<le> houses q" by (rule canBuildEvenly_least [OF can k own q c o])
      have "?P \<in> set (properties b)" using kl by simp
      with inv q g have "\<bar>houses ?P - houses q\<bar> \<le> 1"
        by (auto simp: evenHouses_def list_all_iff)
      with le show "\<bar>houses ?P + 1 - houses q\<bar> \<le> 1" by linarith
    qed
    with Pair show ?thesis by simp
  qed
qed

lemma sell_house_even:
  assumes inv: "evenHouses b"
  shows "evenHouses (snd (handleSellHouse b pix loc))"
proof (cases "handleSellHouse b pix loc")
  case (Pair r b')
  show ?thesis
  proof (cases r)
    case (Failure x)
    with Pair sell_house_fail have "b' = b" by blast
    with Pair inv show ?thesis by simp
  next
    case (Success pl)
    with Pair sell_house_props obtain k where k: "findProperty b loc = Some k"
      and own: "owner (properties b ! k) = Some (pid (players b ! pix))"
      and can: "canSellEvenly b (pid (players b ! pix)) (tile (properties b ! k))"
      and ps: "properties b' = (properties b)[k := (properties b ! k)\<lparr>houses := houses (properties b ! k) - 1\<rparr>]"
      by blast
    let ?P = "properties b ! k"
    have kl: "k < length (properties b)" using findProperty_Some [OF k] by simp
    have "evenHouses b'"
    proof (rule evenHouses_update [OF inv kl ps])
      fix q assume q: "q \<in> set (properties b)" and g: "sameOwnedGroup ?P q"
      from g own have c: "color (attributes (tile q)) = color (attributes (tile ?P))"
        and o: "owner q = Some (pid (players b ! pix))"
        by (simp_all add: sameOwnedGroup_def)
      have le: "houses q \<le> houses ?P" by (rule canSellEvenly_greatest [OF can k own q c o])
      have "?P \<in> set (properties b)" using kl by simp
      with inv q g have "\<bar>houses ?P - houses q\<bar> \<le> 1"
        by (auto simp: evenHouses_def list_all_iff)
      with le show "\<bar>houses ?P - 1 - houses q\<bar> \<le> 1" by linarith
    qed
    with Pair show ?thesis by simp
  qed
qed

text \<open>
  C2 (as amended). If the house counts of any two properties of one owned colour group
  differ by at most one before a build_house or a sell_house command, they do so after it,
  whether the command succeeds or fails. build_hotel and sell_hotel are outside this law: a
  successful build_hotel takes the property's house count from 4 to 0 (with one hotel), a
  successful sell_hotel sets it to 4 (with no hotel), and neither looks at the other
  properties of the group.
\<close>

theorem even_building_preserved:
  "(evenHouses b \<longrightarrow>
      evenHouses (snd (handleBuildHouse b pix loc)) \<and> evenHouses (snd (handleSellHouse b pix loc)))
   \<and> (\<forall>pl b'. handleBuildHotel b pix loc = (Success pl, b') \<longrightarrow>
             (\<exists>k. findProperty b loc = Some k \<and> houses (properties b ! k) = 4
                \<and> properties b' = (properties b)[k := (properties b ! k)\<lparr>houses := 0, hotels := 1\<rparr>]))
   \<and> (\<forall>pl b'. handleSellHotel b pix loc = (Success pl, b') \<longrightarrow>
             (\<exists>k. findProperty b loc = Some k \<and> hotels (properties b ! k) \<noteq> 0
                \<and> properties b' = (properties b)[k := (properties b ! k)\<lparr>hotels := 0, houses := 4\<rparr>]))"
  using build_house_even sell_house_even build_hotel_props sell_hotel_props by blast

text \<open>
  In \<open>demoOwned\<close> (no houses) a house is built on location 1; in \<open>demoBuilt\<close> (four houses
  on each) one is sold on location 3, or else a hotel is built on location 1 and sold
  again.
\<close>

theorem even_building_preserved_witness:
  "evenHouses demoOwned
   \<and> fst (handleBuildHouse demoOwned 0 (Some 1)) = Success NoPayload
   \<and> map houses (properties (snd (handleBuildHouse demoOwned 0 (Some 1)))) = [1, 0]
   \<and> evenHouses (snd (handleBuildHouse demoOwned 0 (Some 1)))
   \<and> evenHouses demoBuilt
   \<and> fst (handleSellHouse demoBuilt 0 (Some 3)) = Success NoPayload
   \<and> map houses (properties (snd (handleSellHouse demoBuilt 0 (Some 3)))) = [4, 3]
   \<and> evenHouses (snd (handleSellHouse demoBuilt 0 (Some 3)))
   \<and> fst (handleBuildHotel demoBuilt 0 (Some 1)) = Success NoPayload
   \<and> properties (snd (handleBuildHotel demoBuilt 0 (Some 1)))
       = (properties demoBuilt)[0 := (properties demoBuilt ! 0)\<lparr>houses := 0, hotels := 1\<rparr>]
   \<and> fst (handleSellHotel (snd (handleBuildHotel demoBuilt 0 (Some 1))) 0 (Some 1)) = Success NoPayload
   \<and> properties (snd (handleSellHotel (snd (handleBuildHotel demoBuilt 0 (Some 1))) 0 (Some 1)))
       = (properties (snd (handleBuildHotel demoBuilt 0 (Some 1))))
           [0 := (properties (snd (handleBuildHotel demoBuilt 0 (Some 1))) ! 0)\<lparr>hotels := 0, houses := 4\<rparr>]"
proof -
  let ?h = "snd (handleBuildHotel demoBuilt 0 (Some 1))"
  have a: "evenHouses demoOwned" "evenHouses demoBuilt" by code_simp+
  have b: "fst (handleBuildHouse demoOwned 0 (Some 1)) = Success NoPayload"
    "map houses (properties (snd (handleBuildHouse demoOwned 0 (Some 1)))) = [1, 0]"
    "fst (handleSellHouse demoBuilt 0 (Some 3)) = Success NoPayload"
    "map houses (properties (snd (handleSellHouse demoBuilt 0 (Some 3)))) = [4, 3]"
    by code_simp+
  have c: "fst (handleBuildHotel demoBuilt 0 (Some 1)) = Success NoPayload"
    "findProperty demoBuilt (Some 1) = Some 0"
    "fst (handleSellHotel ?h 0 (Some 1)) = Success NoPayload"
    "findProperty ?h (Some 1) = Some 0"
    by code_simp+
  note T1 = even_building_preserved [of demoOwned 0 "Some 1"]
  note T2 = even_building_preserved [of demoBuilt 0 "Some 3"]
  note T3 = even_building_preserved [of demoBuilt 0 "Some 1"]
  note T4 = even_building_preserved [of ?h 0 "Some 1"]
  have d: "properties ?h = (properties demoBuilt)[0 := (properties demoBuilt ! 0)\<lparr>houses := 0, hotels := 1\<rparr>]"
    using T3 c(1,2) by (metis option.inject prod.collapse)
  have e: "properties (snd (handleSellHotel ?h 0 (Some 1)))
       = (properties ?h)[0 := (properties ?h ! 0)\<lparr>hotels := 0, houses := 4\<rparr>]"
    using T4 c(3,4) by (metis option.inject prod.collapse)
  from a b c(1,3) d e T1 T2 show ?thesis by simp
qed

text \<open>
  C2 as stated fails: build_hotel is among the operations it names. In \<open>demoBuilt\<close> both
  brown properties carry four houses; build_hotel on location 1 succeeds and leaves the
  house counts 0 and 4 on two properties of one colour owned by one player.
\<close>

theorem build_hotel_breaks_even_houses:
  "evenHouses demoBuilt
   \<and> map houses (properties demoBuilt) = [4, 4]
   \<and> fst (handleBuildHotel demoBuilt 0 (Some 1)) = Success NoPayload
   \<and> map houses (properties (snd (handleBuildHotel demoBuilt 0 (Some 1)))) = [0, 4]
   \<and> map owner (properties (snd (handleBuildHotel demoBuilt 0 (Some 1)))) = [Some ''p1'', Some ''p1'']
   \<and> \<not> evenHouses (snd (handleBuildHotel demoBuilt 0 (Some 1)))"
  by code_simp

section \<open>Selling a hotel\<close>

text \<open>
  C6, evaluated. In \<open>demoBuilt\<close> the house cost of the brown group is 50. build_hotel on
  location 1 charges 50; sell_hotel on the same property then credits 125 (half of five
  house costs), not 25, sets hotels to 0 and houses to 4 and returns the hotel to the bank:
  the state is \<open>demoBuilt\<close> again but for 75 more in the player's hands.
\<close>

theorem sell_hotel_credits_five_halves:
  "fst (handleBuildHotel demoBuilt 0 (Some 1)) = Success NoPayload
   \<and> money (players (snd (handleBuildHotel demoBuilt 0 (Some 1))) ! 0)
       = money (players demoBuilt ! 0) - 50
   \<and> handleSellHotel (snd (handleBuildHotel demoBuilt 0 (Some 1))) 0 (Some 1)
       = (Success NoPayload,
          demoBuilt\<lparr>players := (players demoBuilt)
             [0 := (players demoBuilt ! 0)\<lparr>money := money (players demoBuilt ! 0) + 75\<rparr>]\<rparr>)"
  by code_simp

section \<open>Declining a purchase: the auction\<close>

lemma auction_fold_won:
  "fold (auctionStep b m) cands (m, w) = (m, w)"
  by (induction cands) (simp_all add: auctionStep_def)

lemma auction_fold_none:
  "\<not> 0 < m \<Longrightarrow> fold (auctionStep b m) cands (0, None) = (0, None)"
  by (induction cands) (simp_all add: auctionStep_def)

lemma auction_fold_first:
  "0 < m \<Longrightarrow> fold (auctionStep b m) cands (0, None) =
     (case find (\<lambda>i. m < money (players b ! i)) cands of
        None \<Rightarrow> (0, None) | Some w \<Rightarrow> (m, Some w))"
  by (induction cands) (simp_all add: auctionStep_def auction_fold_won)

lemma find_filter: "find P (filter Q xs) = find (\<lambda>x. Q x \<and> P x) xs"
  by (induction xs) simp_all

lemma find_upt_None: "(\<forall>i<n. \<not> P i) \<Longrightarrow> find P [0..<n] = None"
  by (simp add: find_None_iff)

lemma find_upt_first:
  "w < n \<Longrightarrow> P w \<Longrightarrow> (\<forall>i<w. \<not> P i) \<Longrightarrow> find P [0..<n] = Some w"
  unfolding find_Some_iff by (rule exI [of _ w]) simp

lemma startAuction_nobody:
  assumes "auctionMaxBid (orZero (cost (attributes (tile (properties b ! k))))) \<le> 0
           \<or> (\<forall>i<length (players b). \<not> (\<not> bankrupt (players b ! i)
                  \<and> auctionMaxBid (orZero (cost (attributes (tile (properties b ! k)))))
                       < money (players b ! i)))"
  shows "startAuction b k = b"
proof (cases "0 < auctionMaxBid (orZero (cost (attributes (tile (properties b ! k)))))")
  case False
  then show ?thesis by (simp add: startAuction_def Let_def auction_fold_none)
next
  case True
  with assms have "find (\<lambda>i. \<not> bankrupt (players b ! i)
          \<and> auctionMaxBid (orZero (cost (attributes (tile (properties b ! k))))) < money (players b ! i))
        [0..<length (players b)] = None"
    by (intro find_upt_None) auto
  with True show ?thesis
    by (simp add: startAuction_def Let_def auction_fold_first find_filter)
qed

lemma startAuction_winner:
  assumes "0 < auctionMaxBid (orZero (cost (attributes (tile (properties b ! k)))))"
    and "w < length (players b)"
    and "\<not> bankrupt (players b ! w)
         \<and> auctionMaxBid (orZero (cost (attributes (tile (properties b ! k))))) < money (players b ! w)"
    and "\<forall>i<w. \<not> (\<not> bankrupt (players b ! i)
           \<and> auctionMaxBid (orZero (cost (attributes (tile (properties b ! k))))) < money (players b ! i))"
  shows "startAuction b k =
     updPlayer w (\<lambda>p. p\<lparr>propertyLocs := propertyLocs p @ [location (tile (properties b ! k))]\<rparr>)
       (updProperty k (\<lambda>q. q\<lparr>owner := Some (pid (players b ! w))\<rparr>)
         (updPlayer w (\<lambda>p. p\<lparr>money := money p
              - auctionMaxBid (orZero (cost (attributes (tile (properties b ! k)))))\<rparr>) b))"
proof -
  have "find (\<lambda>i. \<not> bankrupt (players b ! i)
          \<and> auctionMaxBid (orZero (cost (attributes (tile (properties b ! k))))) < money (players b ! i))
        [0..<length (players b)] = Some w"
    using assms(2-4) by (intro find_upt_first) auto
  with assms(1) show ?thesis
    by (simp add: startAuction_def Let_def auction_fold_first find_filter)
qed

lemma auctionMaxBid_floor: "auctionMaxBid c = \<lfloor>0.8 * real_of_int c\<rfloor>"
proof -
  have "0.8 * real_of_int c = real_of_int (c * 4) / real_of_int 5" by simp
  then show ?thesis unfolding auctionMaxBid_def by (simp only: floor_divide_of_int_eq)
qed

lemma auction_paid_state:
  assumes "w < length (players b)"
  shows "updPlayer w (\<lambda>p. p\<lparr>propertyLocs := propertyLocs p @ [l]\<rparr>)
           (updProperty k (\<lambda>q. q\<lparr>owner := Some ident\<rparr>)
             (updPlayer w (\<lambda>p. p\<lparr>money := money p - m\<rparr>) b))
         = b\<lparr>players := (players b)[w := (players b ! w)
                  \<lparr>money := money (players b ! w) - m,
                    propertyLocs := propertyLocs (players b ! w) @ [l]\<rparr>],
              properties := (properties b)[k := (properties b ! k)\<lparr>owner := Some ident\<rparr>]\<rparr>"
  using assms by (simp add: updPlayer_def updProperty_def)

text \<open>
  C9 (as amended). buy_property with \<open>confirm = false\<close> on an unowned ownable tile succeeds
  with \<open>auctionStarted\<close> and runs the auction. The one bid is \<open>floor (0.8 * price)\<close>; the
  candidates are the players who are not bankrupt and hold strictly more than the bid. If
  the bid is not above zero or there is no candidate, the state is unchanged and the
  property stays unowned. Otherwise the first candidate in turn order wins: the property's
  owner is that player's id, the player's money is the bid less, the location is appended to
  the player's property list, and nothing else in the state changes.
\<close>

theorem decline_runs_auction:
  assumes "lookup tiles (position (players b ! pix)) = Some t"
    and "findProperty b (Some (location t)) = Some k"
    and "owner (properties b ! k) = None"
  defines "price \<equiv> orZero (cost (attributes (tile (properties b ! k))))"
  defines "bid \<equiv> auctionMaxBid price"
  defines "canPay \<equiv> \<lambda>i. \<not> bankrupt (players b ! i) \<and> bid < money (players b ! i)"
  shows "bid = \<lfloor>0.8 * real_of_int price\<rfloor>
    \<and> (\<exists>b'. handleBuyProperty tiles b pix False = Inr (Success AuctionStarted, b')
          \<and> ((bid \<le> 0 \<or> (\<forall>i<length (players b). \<not> canPay i)) \<longrightarrow>
                b' = b \<and> owner (properties b' ! k) = None)
          \<and> (\<forall>w<length (players b).
                0 < bid \<and> canPay w \<and> (\<forall>i<w. \<not> canPay i) \<longrightarrow>
                  b' = b\<lparr>players := (players b)[w := (players b ! w)
                            \<lparr>money := money (players b ! w) - bid,
                              propertyLocs := propertyLocs (players b ! w)
                                                @ [location (tile (properties b ! k))]\<rparr>],
                        properties := (properties b)[k := (properties b ! k)
                            \<lparr>owner := Some (pid (players b ! w))\<rparr>]\<rparr>
                  \<and> owner (properties b' ! k) = Some (pid (players b ! w))
                  \<and> money (players b' ! w) = money (players b ! w) - bid
                  \<and> propertyLocs (players b' ! w)
                      = propertyLocs (players b ! w) @ [location (tile (properties b ! k))]))"
proof -
  have kl: "k < length (properties b)" using findProperty_Some [OF assms(2)] by simp
  have buy: "handleBuyProperty tiles b pix False = Inr (Success AuctionStarted, startAuction b k)"
    using assms(1-3) by (simp add: handleBuyProperty_def Let_def)
  have none: "(bid \<le> 0 \<or> (\<forall>i<length (players b). \<not> canPay i))
                \<longrightarrow> startAuction b k = b \<and> owner (properties (startAuction b k) ! k) = None"
    unfolding price_def bid_def canPay_def using startAuction_nobody [of b k] assms(3) by auto
  have won: "startAuction b k
                 = b\<lparr>players := (players b)[w := (players b ! w)
                            \<lparr>money := money (players b ! w) - bid,
                              propertyLocs := propertyLocs (players b ! w)
                                                @ [location (tile (properties b ! k))]\<rparr>],
                        properties := (properties b)[k := (properties b ! k)
                            \<lparr>owner := Some (pid (players b ! w))\<rparr>]\<rparr>"
    if w: "w < length (players b)" "0 < bid" "canPay w" "\<forall>i<w. \<not> canPay i" for w
    using startAuction_winner [of b k w] w
    unfolding price_def bid_def canPay_def by (simp add: auction_paid_state)
  have won': "\<forall>w<length (players b).
                0 < bid \<and> canPay w \<and> (\<forall>i<w. \<not> canPay i) \<longrightarrow>
                  startAuction b k = b\<lparr>players := (players b)[w := (players b ! w)
                            \<lparr>money := money (players b ! w) - bid,
                              propertyLocs := propertyLocs (players b ! w)
                                                @ [location (tile (properties b ! k))]\<rparr>],
                        properties := (properties b)[k := (properties b ! k)
                            \<lparr>owner := Some (pid (players b ! w))\<rparr>]\<rparr>
                  \<and> owner (properties (startAuction b k) ! k) = Some (pid (players b ! w))
                  \<and> money (players (startAuction b k) ! w) = money (players b ! w) - bid
                  \<and> propertyLocs (players (startAuction b k) ! w)
                      = propertyLocs (players b ! w) @ [location (tile (properties b ! k))]"
  proof (intro allI impI)
    fix w assume "w < length (players b)"
      and "0 < bid \<and> canPay w \<and> (\<forall>i<w. \<not> canPay i)"
    then show "startAuction b k = b\<lparr>players := (players b)[w := (players b ! w)
                            \<lparr>money := money (players b ! w) - bid,
                              propertyLocs := propertyLocs (players b ! w)
                                                @ [location (tile (properties b ! k))]\<rparr>],
                        properties := (properties b)[k := (properties b ! k)
                            \<lparr>owner := Some (pid (players b ! w))\<rparr>]\<rparr>
                  \<and> owner (properties (startAuction b k) ! k) = Some (pid (players b ! w))
                  \<and> money (players (startAuction b k) ! w) = money (players b ! w) - bid
                  \<and> propertyLocs (players (startAuction b k) ! w)
                      = propertyLocs (players b ! w) @ [location (tile (properties b ! k))]"
      using won [of w] kl by simp
  qed
  have fl: "bid = \<lfloor>0.8 * real_of_int price\<rfloor>" unfolding bid_def by (rule auctionMaxBid_floor)
  from buy none won' fl show ?thesis by blast
qed

text \<open>
  On the demo board the first player declines location 1 (price 60, bid 48); being the
  first candidate, that same player wins the auction, pays 48 and owns the property.
\<close>

theorem decline_runs_auction_witness:
  "(case handleBuyProperty demoTiles demoAtBrown 0 False of
      Inl e \<Rightarrow> False
    | Inr rs \<Rightarrow> fst rs = Success AuctionStarted
        \<and> owner (properties (snd rs) ! 0) = Some ''p1''
        \<and> money (players (snd rs) ! 0) = 1452
        \<and> propertyLocs (players (snd rs) ! 0) = [1]
        \<and> snd rs = demoAtBrown\<lparr>
             players := (players demoAtBrown)[0 := (players demoAtBrown ! 0)
                           \<lparr>money := 1452, propertyLocs := [1]\<rparr>],
             properties := (properties demoAtBrown)[0 := (properties demoAtBrown ! 0)
                           \<lparr>owner := Some ''p1''\<rparr>]\<rparr>)
   \<and> money (players demoAtBrown ! 0) = 1500
   \<and> owner (properties demoAtBrown ! 0) = None
   \<and> auctionMaxBid (orZero (cost (attributes (tile (properties demoAtBrown ! 0))))) = 48"
proof -
  have h: "lookup demoTiles (position (players demoAtBrown ! 0)) = Some (demoTile 1)"
    "findProperty demoAtBrown (Some (location (demoTile 1))) = Some 0"
    "owner (properties demoAtBrown ! 0) = None"
    by code_simp+
  have v: "auctionMaxBid (orZero (cost (attributes (tile (properties demoAtBrown ! 0))))) = 48"
    "\<not> bankrupt (players demoAtBrown ! 0)" "money (players demoAtBrown ! 0) = 1500"
    "pid (players demoAtBrown ! 0) = ''p1''" "location (tile (properties demoAtBrown ! 0)) = 1"
    "0 < length (players demoAtBrown)" "propertyLocs (players demoAtBrown ! 0) = []"
    "0 < length (properties demoAtBrown)"
    by code_simp+
  from decline_runs_auction [OF h] obtain b' where
    eq: "handleBuyProperty demoTiles demoAtBrown 0 False = Inr (Success AuctionStarted, b')"
    and won: "\<forall>w<length (players demoAtBrown).
        0 < auctionMaxBid (orZero (cost (attributes (tile (properties demoAtBrown ! 0)))))
        \<and> (\<not> bankrupt (players demoAtBrown ! w)
             \<and> auctionMaxBid (orZero (cost (attributes (tile (properties demoAtBrown ! 0)))))
                  < money (players demoAtBrown ! w))
        \<and> (\<forall>i<w. \<not> (\<not> bankrupt (players demoAtBrown ! i)
             \<and> auctionMaxBid (orZero (cost (attributes (tile (properties demoAtBrown ! 0)))))
                  < money (players demoAtBrown ! i))) \<longrightarrow>
          b' = demoAtBrown\<lparr>
             players := (players demoAtBrown)[w := (players demoAtBrown ! w)
                \<lparr>money := money (players demoAtBrown ! w)
                     - auctionMaxBid (orZero (cost (attributes (tile (properties demoAtBrown ! 0))))),
                  propertyLocs := propertyLocs (players demoAtBrown ! w)
                     @ [location (tile (properties demoAtBrown ! 0))]\<rparr>],
             properties := (properties demoAtBrown)[0 := (properties demoAtBrown ! 0)
                \<lparr>owner := Some (pid (players demoAtBrown ! w))\<rparr>]\<rparr>
          \<and> owner (properties b' ! 0) = Some (pid (players demoAtBrown ! w))
          \<and> money (players b' ! w) = money (players demoAtBrown ! w)
               - auctionMaxBid (orZero (cost (attributes (tile (properties demoAtBrown ! 0)))))
          \<and> propertyLocs (players b' ! w) = propertyLocs (players demoAtBrown ! w)
               @ [location (tile (properties demoAtBrown ! 0))]"
    by blast
  from won [rule_format, of 0] v
  have "b' = demoAtBrown\<lparr>
             players := (players demoAtBrown)[0 := (players demoAtBrown ! 0)
                           \<lparr>money := 1452, propertyLocs := [1]\<rparr>],
             properties := (properties demoAtBrown)[0 := (properties demoAtBrown ! 0)
                           \<lparr>owner := Some ''p1''\<rparr>]\<rparr>"
    "owner (properties b' ! 0) = Some ''p1''" "money (players b' ! 0) = 1452"
    "propertyLocs (players b' ! 0) = [1]"
    by simp_all
  with eq v h(3) show ?thesis by simp
qed

text \<open>
  C9 as stated fails: not every non-bankrupt player is a candidate. In \<open>demoExactBid\<close> the
  bid for location 1 is 48 and above zero, the first player holds exactly 48 and the second
  30, neither is bankrupt; the auction changes nothing and the property stays unowned.
\<close>

theorem exact_bid_holder_wins_nothing:
  "handleBuyProperty demoTiles demoExactBid 0 False = Inr (Success AuctionStarted, demoExactBid)
   \<and> owner (properties demoExactBid ! 0) = None
   \<and> auctionMaxBid (orZero (cost (attributes (tile (properties demoExactBid ! 0))))) = 48
   \<and> map bankrupt (players demoExactBid) = [False, False]
   \<and> map money (players demoExactBid) = [48, 30]"
  by code_simp

section \<open>The collect-from-all-players card effect\<close>

lemma collectFrom_length [simp]:
  "length (players (collectFrom pix per i b)) = length (players b)"
  by (simp add: collectFrom_def Let_def)

lemma collectFrom_nth:
  assumes "i \<noteq> pix" "i < length (players b)" "pix < length (players b)"
  shows "players (collectFrom pix per i b) ! j =
     (if j = pix then (players b ! j)\<lparr>money := money (players b ! j) + min (money (players b ! i)) per\<rparr>
      else if j = i then (players b ! j)\<lparr>money := money (players b ! j) - min (money (players b ! j)) per\<rparr>
      else players b ! j)"
  using assms by (simp add: collectFrom_def Let_def nth_list_update)

lemma collect_fold_length [simp]:
  "length (players (fold (collectFrom pix per) xs b)) = length (players b)"
  by (induction xs arbitrary: b) simp_all

lemma collect_fold_nth:
  assumes "distinct xs" "pix \<notin> set xs" "\<forall>i\<in>set xs. i < length (players b)"
    "pix < length (players b)"
  shows "players (fold (collectFrom pix per) xs b) ! j =
     (if j = pix then (players b ! j)\<lparr>money := money (players b ! j)
                         + sum_list (map (\<lambda>i. min (money (players b ! i)) per) xs)\<rparr>
      else if j \<in> set xs
        then (players b ! j)\<lparr>money := money (players b ! j) - min (money (players b ! j)) per\<rparr>
      else players b ! j)"
  using assms
proof (induction xs arbitrary: b)
  case Nil
  then show ?case by simp
next
  case (Cons i xs)
  let ?b1 = "collectFrom pix per i b"
  have i: "i \<noteq> pix" "i < length (players b)" "i \<notin> set xs" using Cons.prems by auto
  note N = collectFrom_nth [OF i(1) i(2) Cons.prems(4)]
  have pre: "distinct xs" "pix \<notin> set xs" "\<forall>x\<in>set xs. x < length (players ?b1)"
    "pix < length (players ?b1)"
    using Cons.prems by auto
  have same: "map (\<lambda>x. min (money (players ?b1 ! x)) per) xs
            = map (\<lambda>x. min (money (players b ! x)) per) xs"
    using i(3) pre(2) by (intro map_cong refl) (auto simp: N)
  have "players (fold (collectFrom pix per) (i # xs) b) ! j
          = players (fold (collectFrom pix per) xs ?b1) ! j" by simp
  also have "\<dots> =
     (if j = pix then (players ?b1 ! j)\<lparr>money := money (players ?b1 ! j)
                         + sum_list (map (\<lambda>i. min (money (players b ! i)) per) xs)\<rparr>
      else if j \<in> set xs
        then (players ?b1 ! j)\<lparr>money := money (players ?b1 ! j) - min (money (players ?b1 ! j)) per\<rparr>
      else players ?b1 ! j)"
    unfolding Cons.IH [OF pre] same ..
  also have "\<dots> =
     (if j = pix then (players b ! j)\<lparr>money := money (players b ! j)
                         + sum_list (map (\<lambda>i. min (money (players b ! i)) per) (i # xs))\<rparr>
      else if j \<in> set (i # xs)
        then (players b ! j)\<lparr>money := money (players b ! j) - min (money (players b ! j)) per\<rparr>
      else players b ! j)"
    using i(1) i(3) pre(2) by (auto simp: N)
  finally show ?case .
qed

lemma otherPlayers_props:
  "distinct (otherPlayers b pix)" "pix \<notin> set (otherPlayers b pix)"
  "\<forall>i\<in>set (otherPlayers b pix). i < length (players b)"
  by (auto simp: otherPlayers_def)

lemma otherPlayers_distinct_ids:
  assumes "distinct (map pid (players b))" "pix < length (players b)"
  shows "otherPlayers b pix =
     filter (\<lambda>i. i \<noteq> pix \<and> \<not> bankrupt (players b ! i)) [0..<length (players b)]"
proof -
  have "pid (players b ! i) = pid (players b ! pix) \<longleftrightarrow> i = pix" if "i < length (players b)" for i
    using nth_eq_iff_index_eq [OF assms(1), of i pix] that assms(2) by simp
  then show ?thesis
    unfolding otherPlayers_def by (intro filter_cong refl) auto
qed

text \<open>
  C10. When the collect block of \<open>executeCardEffect\<close> runs (\<open>collectFromPlayers\<close> set and
  \<open>perPlayer\<close> a number other than 0) in a game whose player ids are distinct, every player
  other than the drawer who is not bankrupt pays \<open>min money perPlayer\<close>: that player's money
  afterwards is not negative, the bankrupt flag stays off, and nothing else of the player
  changes. Bankrupt players are untouched, and the drawer's money grows by exactly the sum
  of those payments.
\<close>

theorem collect_from_all_players:
  assumes "distinct (map pid (players b))" and "pix < length (players b)"
    and "collectFromPlayers attrs" and "perPlayer attrs = Some per" and "per \<noteq> 0"
  defines "b' \<equiv> cardCollectFromPlayers b pix attrs"
  defines "pays \<equiv> \<lambda>i. i \<noteq> pix \<and> \<not> bankrupt (players b ! i)"
  shows "length (players b') = length (players b)
    \<and> (\<forall>i<length (players b). pays i \<longrightarrow>
          players b' ! i = (players b ! i)\<lparr>money := money (players b ! i)
                                             - min (money (players b ! i)) per\<rparr>
          \<and> 0 \<le> money (players b' ! i) \<and> \<not> bankrupt (players b' ! i))
    \<and> (\<forall>i<length (players b). i \<noteq> pix \<and> \<not> pays i \<longrightarrow> players b' ! i = players b ! i)
    \<and> players b' ! pix = (players b ! pix)\<lparr>money := money (players b ! pix)
          + sum_list (map (\<lambda>i. min (money (players b ! i)) per)
                        (filter pays [0..<length (players b)]))\<rparr>"
proof -
  have b': "b' = fold (collectFrom pix per) (otherPlayers b pix) b"
    using assms(3-5) by (simp add: b'_def cardCollectFromPlayers_def truthyNum_def orZero_def)
  note F = collect_fold_nth [OF otherPlayers_props assms(2), of per]
  have O: "otherPlayers b pix = filter pays [0..<length (players b)]"
    unfolding pays_def by (rule otherPlayers_distinct_ids [OF assms(1,2)])
  have mem: "\<And>i. i \<in> set (otherPlayers b pix) \<longleftrightarrow> i < length (players b) \<and> pays i"
    unfolding O by auto
  show ?thesis
    unfolding b' by (simp add: F mem) (simp add: O pays_def)
qed

text \<open>The whole effect of the birthday card is the collect block.\<close>

lemma birthday_card_effect:
  "executeCardEffect land tiles rng b pix birthdayCard
     = Inr (cardCollectFromPlayers b pix (attrsOf birthdayCard))"
  by (simp add: executeCardEffect_def birthdayCard_def attrsOf_def noAttributes_def truthyStr_def
      bindE_def cardMoveToLocation_def cardAmount_def cardJailFree_def cardGoToJail_def
      cardPayToPlayers_def cardRepairs_def truthyNum_def)

text \<open>
  The birthday card drawn by the first player of \<open>demoParty\<close>: the effect of the card is the
  collect block alone; the second player pays the 4 held, the fourth pays 10, the bankrupt
  third pays nothing, and the drawer receives 14.
\<close>

theorem collect_from_all_players_witness:
  "executeCardEffect (handleLanding 1 demoTiles demoDice) demoTiles demoDice demoParty 0 birthdayCard
     = Inr (cardCollectFromPlayers demoParty 0 (attrsOf birthdayCard))
   \<and> map money (players demoParty) = [1500, 4, 0, 1500]
   \<and> players (cardCollectFromPlayers demoParty 0 (attrsOf birthdayCard)) ! 0
       = (players demoParty ! 0)\<lparr>money := 1514\<rparr>
   \<and> players (cardCollectFromPlayers demoParty 0 (attrsOf birthdayCard)) ! 1
       = (players demoParty ! 1)\<lparr>money := 0\<rparr>
   \<and> players (cardCollectFromPlayers demoParty 0 (attrsOf birthdayCard)) ! 2
       = players demoParty ! 2
   \<and> players (cardCollectFromPlayers demoParty 0 (attrsOf birthdayCard)) ! 3
       = (players demoParty ! 3)\<lparr>money := 1490\<rparr>"
proof -
  have h: "distinct (map pid (players demoParty))" "0 < length (players demoParty)"
    "collectFromPlayers (attrsOf birthdayCard)" "perPlayer (attrsOf birthdayCard) = Some 10"
    "(10::int) \<noteq> 0"
    by code_simp+
  note T = collect_from_all_players [OF h]
  have v: "length (players demoParty) = 4" "map money (players demoParty) = [1500, 4, 0, 1500]"
    "\<not> bankrupt (players demoParty ! 1)" "bankrupt (players demoParty ! 2)"
    "\<not> bankrupt (players demoParty ! 3)"
    "money (players demoParty ! 0) = 1500" "money (players demoParty ! 1) = 4"
    "money (players demoParty ! 3) = 1500"
    "sum_list (map (\<lambda>i. min (money (players demoParty ! i)) 10)
       (filter (\<lambda>i. i \<noteq> 0 \<and> \<not> bankrupt (players demoParty ! i)) [0..<length (players demoParty)])) = 14"
    by code_simp+
  from T v birthday_card_effect show ?thesis by simp
qed

section \<open>Rolling and moving\<close>

lemma updAgent_sel [simp]:
  "players (updAgent i f b) = players b"
  "agents (updAgent i f b) = (agents b)[i := f (agents b ! i)]"
  "currentPlayerIndex (updAgent i f b) = currentPlayerIndex b"
  by (simp_all add: updAgent_def)

lemma js_rem_nonneg: "0 \<le> a \<Longrightarrow> 0 < b \<Longrightarrow> js_rem a b = a mod b"
  by (cases "a = 0") (simp_all add: js_rem_def)

lemma recordRoll_players [simp]: "players (recordRoll rng b) = players b"
  by (simp add: recordRoll_def rollDice_def updAgent_def Let_def)

lemma movePlayer_players:
  assumes "pix < length (players b)"
    and "0 \<le> position (players b ! pix)" and "0 \<le> tot"
  shows "players (movePlayer b pix tot) =
     (players b)[pix := (players b ! pix)
        \<lparr>position := (position (players b ! pix) + tot) mod 40,
          money := money (players b ! pix)
                   + (if (position (players b ! pix) + tot) mod 40 < position (players b ! pix)
                         \<or> 40 \<le> position (players b ! pix) + tot then 200 else 0)\<rparr>]"
  using assms by (simp add: movePlayer_def Let_def js_rem_nonneg)

lemma wrap_iff:
  fixes old tot :: int
  assumes "0 \<le> old" "old \<le> 39" "2 \<le> tot" "tot \<le> 12"
  shows "((old + tot) mod 40 < old) = (40 \<le> old + tot)"
proof (cases "40 \<le> old + tot")
  case True
  have "(old + tot) mod 40 = (old + tot - 40) mod 40"
    by (rule minus_mod_self2 [symmetric])
  also have "\<dots> = old + tot - 40"
    using True assms by (intro mod_pos_pos_trivial) linarith+
  finally show ?thesis using True assms by linarith
next
  case False
  have "(old + tot) mod 40 = old + tot"
    using False assms by (intro mod_pos_pos_trivial) linarith+
  then show ?thesis using False assms by linarith
qed

lemma passedGo_recordRoll:
  assumes "0 \<le> position (players b ! pix)" and "0 \<le> tot"
  shows "passedGo (recordRoll rng b) pix tot =
     ((position (players b ! pix) + tot) mod 40 < position (players b ! pix)
      \<or> 40 \<le> position (players b ! pix) + tot)"
  using assms by (simp add: passedGo_def js_rem_nonneg)

lemma recordRoll_doublesCount:
  "doublesCount (recordRoll rng b) =
     (if fst (rng (diceUsed b)) = snd (rng (diceUsed b)) then doublesCount b + 1 else doublesCount b)"
  by (simp add: recordRoll_def rollDice_def updAgent_def Let_def)

text \<open>
  C4. An accepted roll with dice total 2..12 from a position 0..39 that is not the third
  double of the turn: \<open>handleRollDice\<close> resolves the landing (\<open>landAfterMove\<close>) from the
  state \<open>b1\<close> in which, of all players, only the roller has changed, the position being
  \<open>(oldPos + total) mod 40\<close> and the money being 200 more exactly when
  \<open>oldPos + total \<ge> 40\<close>, which is exactly when the new position is below the old one; the
  \<open>passedGo\<close> flag of the result is that condition.
\<close>

theorem roll_moves_mod_40:
  assumes "lookup (agents b) (currentPlayerIndex b) = Some a" and "canRollDice a"
    and "pix < length (players b)"
    and "0 \<le> position (players b ! pix)" and "position (players b ! pix) \<le> 39"
    and "rng (diceUsed b) = (d1, d2)" and "2 \<le> d1 + d2" and "d1 + d2 \<le> 12"
    and "\<not> (d1 = d2 \<and> doublesCount b + 1 = 3)"
  defines "oldPos \<equiv> position (players b ! pix)"
  defines "b1 \<equiv> movePlayer (recordRoll rng b) pix (d1 + d2)"
  shows "handleRollDice fuel tiles rng b pix
           = landAfterMove fuel tiles rng b1 pix
               \<lparr>die1 = d1, die2 = d2, total = d1 + d2, doubles = (d1 = d2)\<rparr> (40 \<le> oldPos + (d1 + d2))
    \<and> players b1 = (players b)[pix := (players b ! pix)
           \<lparr>position := (oldPos + (d1 + d2)) mod 40,
             money := money (players b ! pix) + (if 40 \<le> oldPos + (d1 + d2) then 200 else 0)\<rparr>]
    \<and> (position (players b1 ! pix) < oldPos) = (40 \<le> oldPos + (d1 + d2))"
proof -
  have tot: "0 \<le> d1 + d2" using assms(7) by simp
  note W = wrap_iff [OF assms(4,5,7,8)]
  have roll: "fst (rollDice rng b) = \<lparr>die1 = d1, die2 = d2, total = d1 + d2, doubles = (d1 = d2)\<rparr>"
    using assms(6) by (simp add: rollDice_def Let_def)
  have nj: "\<not> (d1 = d2 \<and> doublesCount (recordRoll rng b) = 3)"
    using assms(6,9) by (auto simp: recordRoll_doublesCount)
  have pg: "passedGo (recordRoll rng b) pix (d1 + d2) = (40 \<le> oldPos + (d1 + d2))"
    unfolding oldPos_def using passedGo_recordRoll [OF assms(4) tot, of rng] W by simp
  have 1: "handleRollDice fuel tiles rng b pix
           = landAfterMove fuel tiles rng b1 pix
               \<lparr>die1 = d1, die2 = d2, total = d1 + d2, doubles = (d1 = d2)\<rparr> (40 \<le> oldPos + (d1 + d2))"
    using assms(1,2) nj by (auto simp: handleRollDice_def Let_def roll pg b1_def)
  have 2: "players b1 = (players b)[pix := (players b ! pix)
           \<lparr>position := (oldPos + (d1 + d2)) mod 40,
             money := money (players b ! pix) + (if 40 \<le> oldPos + (d1 + d2) then 200 else 0)\<rparr>]"
    unfolding b1_def oldPos_def
    using movePlayer_players [of pix "recordRoll rng b" "d1 + d2"] assms(3,4) tot W by simp
  have 3: "(position (players b1 ! pix) < oldPos) = (40 \<le> oldPos + (d1 + d2))"
    unfolding 2 using assms(3) W by (simp add: oldPos_def)
  from 1 2 3 show ?thesis by blast
qed

text \<open>
  The scenario of the specification: the player on location 35 rolls 3 and 4, moves to
  location 2 and receives 200.
\<close>

theorem roll_moves_mod_40_witness:
  "handleRollDice 1 demoTiles (\<lambda>n. (3, 4)) demoAt35 0
     = landAfterMove 1 demoTiles (\<lambda>n. (3, 4)) (movePlayer (recordRoll (\<lambda>n. (3, 4)) demoAt35) 0 7) 0
         \<lparr>die1 = 3, die2 = 4, total = 7, doubles = False\<rparr> True
   \<and> players (movePlayer (recordRoll (\<lambda>n. (3, 4)) demoAt35) 0 7)
       = (players demoAt35)[0 := (players demoAt35 ! 0)\<lparr>position := 2, money := 1700\<rparr>]
   \<and> position (players demoAt35 ! 0) = 35 \<and> money (players demoAt35 ! 0) = 1500
   \<and> (case handleRollDice 1 demoTiles (\<lambda>n. (3, 4)) demoAt35 0 of
         Inl e \<Rightarrow> False
       | Inr rs \<Rightarrow> fst rs = Success (Rolled \<lparr>die1 = 3, die2 = 4, total = 7, doubles = False\<rparr>
                                    2 False False True None)
                  \<and> position (players (snd rs) ! 0) = 2 \<and> money (players (snd rs) ! 0) = 1700)"
proof -
  have h: "lookup (agents demoAt35) (currentPlayerIndex demoAt35) = Some newAgent"
    "canRollDice newAgent" "0 < length (players demoAt35)"
    "0 \<le> position (players demoAt35 ! 0)" "position (players demoAt35 ! 0) \<le> 39"
    by code_simp+
  have d: "(\<lambda>n::nat. (3::int, 4::int)) (diceUsed demoAt35) = (3, 4)" "(2::int) \<le> 3 + 4"
    "(3::int) + 4 \<le> 12" "\<not> ((3::int) = 4 \<and> doublesCount demoAt35 + 1 = 3)"
    by simp_all
  note T = roll_moves_mod_40 [OF h d, of 1 demoTiles]
  have v: "position (players demoAt35 ! 0) = 35" "money (players demoAt35 ! 0) = 1500"
    by code_simp+
  have e: "(case handleRollDice 1 demoTiles (\<lambda>n. (3, 4)) demoAt35 0 of
         Inl e \<Rightarrow> False
       | Inr rs \<Rightarrow> fst rs = Success (Rolled \<lparr>die1 = 3, die2 = 4, total = 7, doubles = False\<rparr>
                                    2 False False True None)
                  \<and> position (players (snd rs) ! 0) = 2 \<and> money (players (snd rs) ! 0) = 1700)"
    by code_simp
  from T v e show ?thesis by simp
qed

section \<open>Rolling again after a non-double\<close>

lemma canRollDice_after_doubles_then_plain:
  "canRollDice (markRollResult False (markRollResult True (resetForNewTurn a)))"
  by (simp add: canRollDice_def markRollResult_def resetForNewTurn_def)

text \<open>
  C3, evaluated. In a new game (nothing rolled yet this turn) the first player's three
  roll_dice commands meet the dice 3 and 3, then 1 and 2, then 2 and 3. The second roll is
  not a double, yet the third command is accepted: it rolls and moves the player from 9 to
  14. \<open>canRollDice\<close> asks whether any double was rolled this turn, not whether the last
  roll was one.
\<close>

theorem roll_accepted_after_non_doubles:
  "(case executeToolCall 1 demoTiles demoDice demoGame 0 RollDice of
      Inl e \<Rightarrow> False
    | Inr rs1 \<Rightarrow>
        fst rs1 = Success (Rolled \<lparr>die1 = 3, die2 = 3, total = 6, doubles = True\<rparr> 6 True True False None)
        \<and> (case executeToolCall 1 demoTiles demoDice (snd rs1) 0 RollDice of
              Inl e \<Rightarrow> False
            | Inr rs2 \<Rightarrow>
                fst rs2 = Success (Rolled \<lparr>die1 = 1, die2 = 2, total = 3, doubles = False\<rparr>
                                     9 False False False None)
                \<and> (case executeToolCall 1 demoTiles demoDice (snd rs2) 0 RollDice of
                      Inl e \<Rightarrow> False
                    | Inr rs3 \<Rightarrow>
                        fst rs3 = Success (Rolled \<lparr>die1 = 2, die2 = 3, total = 5, doubles = False\<rparr>
                                             14 False False False None)
                        \<and> position (players (snd rs3) ! 0) = 14
                        \<and> diceUsed (snd rs3) = 3)))"
  by code_simp

section \<open>The third turn in jail\<close>

text \<open>
  C5 (as amended). The current player is in jail, not bankrupt, with two or more jail turns
  behind. With at least 50 in hand \<open>playTurn\<close> takes 50, releases the player, resets the
  counter, and goes on to the decision loop with that state before advancing to the next
  player. With less than 50 the player is settled bankrupt against the bank and
  \<open>playTurn\<close> only advances to the next player: no roll, no landing, no decision loop.
\<close>

theorem third_jail_turn:
  assumes "lookup (players b) (currentPlayerIndex b) = Some p"
    and "lookup (agents b) (currentPlayerIndex b) = Some a"
    and "inJail p" and "2 \<le> jailTurns p" and "\<not> bankrupt p"
  defines "pix \<equiv> nat (currentPlayerIndex b)"
  defines "b0 \<equiv> (updAgent pix resetForNewTurn (b\<lparr>turn := turn b + 1\<rparr>))\<lparr>doublesCount := 0\<rparr>"
  shows "(50 \<le> money p \<longrightarrow>
            playTurn fuel tiles rng decide b =
              bindE (decisionLoop fuel fuel tiles rng decide
                       (b0\<lparr>players := (players b)[pix := p\<lparr>money := money p - 50, inJail := False,
                                                            jailTurns := 0\<rparr>]\<rparr>) pix 0)
                nextPlayer)
       \<and> (money p < 50 \<longrightarrow>
            playTurn fuel tiles rng decide b =
              nextPlayer (handleBankruptcy
                            (b0\<lparr>players := (players b)[pix := p\<lparr>jailTurns := jailTurns p + 1\<rparr>]\<rparr>)
                            pix None))"
proof -
  from lookup_Some [OF assms(1)] have p: "pix < length (players b)" "players b ! pix = p"
    by (simp_all add: pix_def)
  have pl: "players b0 = players b" by (simp add: b0_def)
  have j1: "updPlayer pix (\<lambda>q. q\<lparr>jailTurns := jailTurns q + 1\<rparr>) b0
              = b0\<lparr>players := (players b)[pix := p\<lparr>jailTurns := jailTurns p + 1\<rparr>]\<rparr>"
    by (simp add: updPlayer_def pl p)
  have j2: "updPlayer pix (\<lambda>q. q\<lparr>money := money q - 50, inJail := False, jailTurns := 0\<rparr>)
              (b0\<lparr>players := (players b)[pix := p\<lparr>jailTurns := jailTurns p + 1\<rparr>]\<rparr>)
              = b0\<lparr>players := (players b)[pix := p\<lparr>money := money p - 50, inJail := False,
                                                            jailTurns := 0\<rparr>]\<rparr>"
    using p by (simp add: updPlayer_def)
  have hj: "handleJail fuel tiles rng b0 pix =
      (if 50 \<le> money p
       then Inr (b0\<lparr>players := (players b)[pix := p\<lparr>money := money p - 50, inJail := False,
                                                            jailTurns := 0\<rparr>]\<rparr>)
       else Inr (handleBankruptcy
                   (b0\<lparr>players := (players b)[pix := p\<lparr>jailTurns := jailTurns p + 1\<rparr>]\<rparr>) pix None))"
    unfolding handleJail_def Let_def j1 using p assms(4) by (simp add: j2)
  have bk: "bankrupt (players (handleBankruptcy
                   (b0\<lparr>players := (players b)[pix := p\<lparr>jailTurns := jailTurns p + 1\<rparr>]\<rparr>) pix None) ! pix)"
    using p by (simp add: bankruptcy_bank_players)
  have pt: "playTurn fuel tiles rng decide b =
      bindE (handleJail fuel tiles rng b0 pix)
        (\<lambda>b3. if inJail (players b3 ! pix) \<or> bankrupt (players b3 ! pix) then nextPlayer b3
               else bindE (decisionLoop fuel fuel tiles rng decide b3 pix 0) nextPlayer)"
    using assms(3) p unfolding playTurn_def Let_def b0_def pix_def
    by (simp add: assms(1,2) cong del: if_weak_cong)
  show ?thesis
    unfolding pt hj using p bk assms(5) by (simp add: bindE_def)
qed

text \<open>
  \<open>demoJailed\<close> (1500 in hand) and \<open>demoJailedPoor\<close> (30 in hand) with a decision provider
  that ends the turn at once: the poor player ends bankrupt, still in jail on location 10,
  with no dice used and no decision asked.
\<close>

theorem third_jail_turn_witness:
  "playTurn 1 demoTiles demoDice (\<lambda>n. [EndTurn]) demoJailed =
     bindE (decisionLoop 1 1 demoTiles demoDice (\<lambda>n. [EndTurn])
              (((updAgent 0 resetForNewTurn (demoJailed\<lparr>turn := turn demoJailed + 1\<rparr>))
                   \<lparr>doublesCount := 0\<rparr>)
                 \<lparr>players := (players demoJailed)
                    [0 := (players demoJailed ! 0)\<lparr>money := 1450, inJail := False, jailTurns := 0\<rparr>]\<rparr>) 0 0)
       nextPlayer
   \<and> playTurn 1 demoTiles demoDice (\<lambda>n. [EndTurn]) demoJailedPoor =
       nextPlayer (handleBankruptcy
          (((updAgent 0 resetForNewTurn (demoJailedPoor\<lparr>turn := turn demoJailedPoor + 1\<rparr>))
               \<lparr>doublesCount := 0\<rparr>)
             \<lparr>players := (players demoJailedPoor)
                [0 := (players demoJailedPoor ! 0)\<lparr>jailTurns := 3\<rparr>]\<rparr>) 0 None)
   \<and> (case playTurn 1 demoTiles demoDice (\<lambda>n. [EndTurn]) demoJailedPoor of
         Inl e \<Rightarrow> False
       | Inr s \<Rightarrow> bankrupt (players s ! 0) \<and> inJail (players s ! 0) \<and> money (players s ! 0) = 0
                  \<and> position (players s ! 0) = 10 \<and> diceUsed s = 0
                  \<and> turnInteractionCount (agents s ! 0) = 0 \<and> currentPlayerIndex s = 1)"
proof -
  have h: "lookup (players demoJailed) (currentPlayerIndex demoJailed) = Some (players demoJailed ! 0)"
    "lookup (agents demoJailed) (currentPlayerIndex demoJailed) = Some newAgent"
    "inJail (players demoJailed ! 0)" "2 \<le> jailTurns (players demoJailed ! 0)"
    "\<not> bankrupt (players demoJailed ! 0)"
    by code_simp+
  have h': "lookup (players demoJailedPoor) (currentPlayerIndex demoJailedPoor) = Some (players demoJailedPoor ! 0)"
    "lookup (agents demoJailedPoor) (currentPlayerIndex demoJailedPoor) = Some newAgent"
    "inJail (players demoJailedPoor ! 0)" "2 \<le> jailTurns (players demoJailedPoor ! 0)"
    "\<not> bankrupt (players demoJailedPoor ! 0)"
    by code_simp+
  have v: "money (players demoJailed ! 0) = 1500" "money (players demoJailedPoor ! 0) = 30"
    "jailTurns (players demoJailedPoor ! 0) = 2"
    "currentPlayerIndex demoJailed = 0" "currentPlayerIndex demoJailedPoor = 0"
    by code_simp+
  have e: "(case playTurn 1 demoTiles demoDice (\<lambda>n. [EndTurn]) demoJailedPoor of
         Inl e \<Rightarrow> False
       | Inr s \<Rightarrow> bankrupt (players s ! 0) \<and> inJail (players s ! 0) \<and> money (players s ! 0) = 0
                  \<and> position (players s ! 0) = 10 \<and> diceUsed s = 0
                  \<and> turnInteractionCount (agents s ! 0) = 0 \<and> currentPlayerIndex s = 1)"
    by code_simp
  from third_jail_turn [OF h, of 1 demoTiles demoDice "\<lambda>n. [EndTurn]"]
    third_jail_turn [OF h', of 1 demoTiles demoDice "\<lambda>n. [EndTurn]"] v e
  show ?thesis by simp
qed

text \<open>
  C5 as stated fails: after the forced payment the turn does not end. In \<open>demoJailed\<close> the
  decision provider answers roll_dice and then end_turn; the released player rolls 3 and 4
  in the same turn and moves from 10 to 17.
\<close>

theorem released_player_keeps_the_turn:
  "(case playTurn 2 demoTiles (\<lambda>n. (3, 4)) rollThenEnd demoJailed of
      Inl e \<Rightarrow> False
    | Inr s \<Rightarrow> position (players s ! 0) = 17 \<and> money (players s ! 0) = 1450
               \<and> \<not> inJail (players s ! 0) \<and> \<not> bankrupt (players s ! 0)
               \<and> diceUsed s = 1 \<and> hasRolledThisTurn (agents s ! 0)
               \<and> turnInteractionCount (agents s ! 0) = 2 \<and> currentPlayerIndex s = 1)
   \<and> position (players demoJailed ! 0) = 10 \<and> inJail (players demoJailed ! 0)
   \<and> jailTurns (players demoJailed ! 0) = 2 \<and> money (players demoJailed ! 0) = 1500
   \<and> diceUsed demoJailed = 0 \<and> currentPlayerIndex demoJailed = 0"
  by code_simp

end
